theory Spec2Isabelle
  imports Main "HOL-Library.Word"
begin

unbundle bit_operations_syntax

section \<open>Host terms\<close>

text \<open>
  The values handed to the host (\<open>ERL_NIF_TERM\<close>). An integer term is unbounded, a
  float term holds the 64 bits of an IEEE double, a binary holds bytes. A map keeps its
  pairs in the order of the arrays it was built from. \<open>Badarg\<close> is what
  \<open>enif_make_badarg\<close> returns: the call that produced it raises \<open>badarg\<close>.
  \<open>Fault\<close> is no term: it marks a run in which the C code reads through a null
  pointer, so that the call does not return.
\<close>

datatype eterm =
    Atom string
  | Integer int
  | Double "64 word"
  | Binary string
  | List "eterm list"
  | Tuple "eterm list"
  | Map "(eterm \<times> eterm) list"
  | Resource nat
  | Badarg
  | Fault

definition atom_ok :: eterm where "atom_ok = Atom ''ok''"
definition atom_error :: eterm where "atom_error = Atom ''error''"
definition atom_nil :: eterm where "atom_nil = Atom ''nil''"

definition make_error :: "string \<Rightarrow> eterm" where
  "make_error error_msg = Tuple [atom_error, Binary error_msg]"

definition make_ok :: "eterm \<Rightarrow> eterm" where
  "make_ok t = Tuple [atom_ok, t]"

section \<open>C library: decimal text\<close>

definition digit_char :: "nat \<Rightarrow> char" where
  "digit_char n = ''0123456789'' ! (n mod 10)"

definition digit_val :: "char \<Rightarrow> nat option" where
  "digit_val c = map_of (zip ''0123456789'' [0, 1, 2, 3, 4, 5, 6, 7, 8, 9]) c"

definition isdigit :: "char \<Rightarrow> bool" where
  "isdigit c = (digit_val c \<noteq> None)"

text \<open>The six white-space characters of the C locale.\<close>

definition isspace :: "char \<Rightarrow> bool" where
  "isspace c = (c = CHR '' '' \<or> c = CHR 0x09 \<or> c = CHR 0x0A \<or> c = CHR 0x0B
                 \<or> c = CHR 0x0C \<or> c = CHR 0x0D)"

text \<open>\<open>%llu\<close> and \<open>%lld\<close> of \<open>snprintf\<close>.\<close>

fun show_nat :: "nat \<Rightarrow> string" where
  "show_nat n = (if n < 10 then [digit_char n] else show_nat (n div 10) @ [digit_char (n mod 10)])"

declare show_nat.simps [simp del]

definition show_int :: "int \<Rightarrow> string" where
  "show_int i = (if i < 0 then CHR ''-'' # show_nat (nat (- i)) else show_nat (nat i))"

text \<open>The value of a run of decimal digits, most significant first.\<close>

definition digits_value :: "string \<Rightarrow> nat" where
  "digits_value ds = foldl (\<lambda>acc c. acc * 10 + the (digit_val c)) 0 ds"

definition LLONG_MAX :: int where "LLONG_MAX = 9223372036854775807"
definition LLONG_MIN :: int where "LLONG_MIN = - 9223372036854775808"

text \<open>
  \<open>strtoll(str, &endptr, 10)\<close>: white space is skipped, one sign is read, then the
  longest run of digits. With no digit the value is 0 and \<open>endptr\<close> is \<open>str\<close>; a
  value out of range is clamped to \<open>LLONG_MAX\<close> or \<open>LLONG_MIN\<close>. The result is the
  value and the text \<open>endptr\<close> points to.
\<close>

definition strtoll :: "string \<Rightarrow> int \<times> string" where
  "strtoll str =
     (let s1 = dropWhile isspace str;
          neg = (s1 \<noteq> [] \<and> hd s1 = CHR ''-'');
          s2 = (if s1 \<noteq> [] \<and> (hd s1 = CHR ''-'' \<or> hd s1 = CHR ''+'') then tl s1 else s1);
          ds = takeWhile isdigit s2;
          v = (if neg then - int (digits_value ds) else int (digits_value ds))
      in if ds = [] then (0, str)
         else (max LLONG_MIN (min LLONG_MAX v), dropWhile isdigit s2))"

section \<open>Hugeint, row-oriented path\<close>

text \<open>
  \<open>hugeint_to_elixir_integer_via_varchar\<close>. The argument is what
  \<open>duckdb_value_varchar\<close> returned for the cell (\<open>None\<close> for a null pointer). The
  text is kept as an integer only when \<open>strtoll\<close> consumed all of it and the value is
  neither \<open>LLONG_MAX\<close> nor \<open>LLONG_MIN\<close>.
\<close>

definition hugeint_to_elixir_integer_via_varchar :: "string option \<Rightarrow> eterm" where
  "hugeint_to_elixir_integer_via_varchar varchar =
     (case varchar of
        None \<Rightarrow> atom_nil
      | Some str \<Rightarrow>
          (let (val, endptr) = strtoll str
           in if endptr = [] \<and> val \<noteq> LLONG_MAX \<and> val \<noteq> LLONG_MIN
              then Integer val
              else Binary str))"

text \<open>
  What the specification calls a decimal-digit string: an optional minus sign followed
  by at least one digit and nothing else. \<open>decimal_value\<close> is the caller's parse of
  such a string, with unbounded precision.
\<close>

definition is_decimal_string :: "string \<Rightarrow> bool" where
  "is_decimal_string s =
     (case s of
        [] \<Rightarrow> False
      | c # cs \<Rightarrow> if c = CHR ''-'' then cs \<noteq> [] \<and> list_all isdigit cs
                  else list_all isdigit (c # cs))"

definition decimal_value :: "string \<Rightarrow> int" where
  "decimal_value s =
     (case s of
        [] \<Rightarrow> 0
      | c # cs \<Rightarrow> if c = CHR ''-'' then - int (digits_value cs) else int (digits_value (c # cs)))"

section \<open>Hugeint, vector path\<close>

record duckdb_hugeint =
  lower :: "64 word"
  upper :: "64 word"

text \<open>The number a hugeint stands for: \<open>upper\<close> is signed, \<open>lower\<close> unsigned.\<close>

definition hugeint_value :: "duckdb_hugeint \<Rightarrow> int" where
  "hugeint_value h = sint (upper h) * 2 ^ 64 + uint (lower h)"

text \<open>The \<open>DUCKDB_TYPE_HUGEINT\<close> case of \<open>extract_vector_value\<close>.\<close>

definition extract_hugeint :: "duckdb_hugeint \<Rightarrow> eterm" where
  "extract_hugeint v =
     (if upper v = 0 \<and> lower v \<le> 9223372036854775807 then Integer (sint (lower v))
      else if upper v = - 1 \<and> lower v \<ge> 9223372036854775808 then Integer (sint (lower v))
      else Binary (''hugeint:'' @ show_int (sint (upper v)) @ '':'' @ show_nat (unat (lower v))))"

section \<open>C library: padded numbers and IEEE bit patterns\<close>

text \<open>\<open>%0Nd\<close>: zeros fill up to the width, after the sign.\<close>

definition show_int_pad :: "nat \<Rightarrow> int \<Rightarrow> string" where
  "show_int_pad w i =
     (let ds = show_nat (nat \<bar>i\<bar>)
      in if i < 0 then CHR ''-'' # replicate (w - 1 - length ds) CHR ''0'' @ ds
         else replicate (w - length ds) CHR ''0'' @ ds)"

definition hex_char :: "nat \<Rightarrow> char" where
  "hex_char n = ''0123456789abcdef'' ! (n mod 16)"

fun show_hex :: "nat \<Rightarrow> string" where
  "show_hex n = (if n < 16 then [hex_char n] else show_hex (n div 16) @ [hex_char (n mod 16)])"

declare show_hex.simps [simp del]

text \<open>\<open>%0Nllx\<close>.\<close>

definition show_hex_pad :: "nat \<Rightarrow> nat \<Rightarrow> string" where
  "show_hex_pad w n = (let ds = show_hex n in replicate (w - length ds) CHR ''0'' @ ds)"

text \<open>
  A \<open>double\<close> is its 64 bits, a \<open>float\<close> its 32 bits: sign, exponent, fraction.
  \<open>isnan\<close>, \<open>isinf\<close> and the comparison with zero read the bits as IEEE 754 does.
\<close>

definition isnan64 :: "64 word \<Rightarrow> bool" where
  "isnan64 d = (d AND 0x7FF0000000000000 = 0x7FF0000000000000 \<and> d AND 0x000FFFFFFFFFFFFF \<noteq> 0)"

definition isinf64 :: "64 word \<Rightarrow> bool" where
  "isinf64 d = (d AND 0x7FFFFFFFFFFFFFFF = 0x7FF0000000000000)"

definition gt_zero64 :: "64 word \<Rightarrow> bool" where
  "gt_zero64 d = (\<not> isnan64 d \<and> d AND 0x8000000000000000 = 0 \<and> d AND 0x7FFFFFFFFFFFFFFF \<noteq> 0)"

definition isnan32 :: "32 word \<Rightarrow> bool" where
  "isnan32 f = (f AND 0x7F800000 = 0x7F800000 \<and> f AND 0x007FFFFF \<noteq> 0)"

definition isinf32 :: "32 word \<Rightarrow> bool" where
  "isinf32 f = (f AND 0x7FFFFFFF = 0x7F800000)"

definition gt_zero32 :: "32 word \<Rightarrow> bool" where
  "gt_zero32 f = (\<not> isnan32 f \<and> f AND 0x80000000 = 0 \<and> f AND 0x7FFFFFFF \<noteq> 0)"

text \<open>
  \<open>enif_make_double\<close> builds a float term from a finite double only; for a NaN or an
  infinity it calls \<open>enif_make_badarg\<close> and returns the exception marker.
\<close>

definition enif_make_double :: "64 word \<Rightarrow> eterm" where
  "enif_make_double d = (if isnan64 d \<or> isinf64 d then Badarg else Double d)"

text \<open>
  \<open>enif_make_map_from_arrays\<close> fails (\<open>None\<close>, the C function returns 0) when two
  keys are equal, and otherwise builds the map of the pairs.
\<close>

definition enif_make_map_from_arrays :: "eterm list \<Rightarrow> eterm list \<Rightarrow> eterm option" where
  "enif_make_map_from_arrays keys vals =
     (if distinct keys then Some (Map (zip keys vals)) else None)"

section \<open>Engine types and vectors\<close>

datatype duckdb_type =
    DUCKDB_TYPE_INVALID | DUCKDB_TYPE_BOOLEAN | DUCKDB_TYPE_TINYINT | DUCKDB_TYPE_SMALLINT
  | DUCKDB_TYPE_INTEGER | DUCKDB_TYPE_BIGINT | DUCKDB_TYPE_UTINYINT | DUCKDB_TYPE_USMALLINT
  | DUCKDB_TYPE_UINTEGER | DUCKDB_TYPE_UBIGINT | DUCKDB_TYPE_FLOAT | DUCKDB_TYPE_DOUBLE
  | DUCKDB_TYPE_TIMESTAMP | DUCKDB_TYPE_DATE | DUCKDB_TYPE_TIME | DUCKDB_TYPE_INTERVAL
  | DUCKDB_TYPE_HUGEINT | DUCKDB_TYPE_UHUGEINT | DUCKDB_TYPE_VARCHAR | DUCKDB_TYPE_BLOB
  | DUCKDB_TYPE_DECIMAL | DUCKDB_TYPE_TIMESTAMP_S | DUCKDB_TYPE_TIMESTAMP_MS
  | DUCKDB_TYPE_TIMESTAMP_NS | DUCKDB_TYPE_ENUM | DUCKDB_TYPE_LIST | DUCKDB_TYPE_STRUCT
  | DUCKDB_TYPE_MAP | DUCKDB_TYPE_ARRAY | DUCKDB_TYPE_UUID | DUCKDB_TYPE_UNION
  | DUCKDB_TYPE_BIT | DUCKDB_TYPE_TIME_TZ | DUCKDB_TYPE_TIMESTAMP_TZ
  | DUCKDB_TYPE_OTHER int

text \<open>
  A logical type: the type identifier with what the engine's accessors return for it
  (\<open>duckdb_decimal_width\<close>, \<open>duckdb_decimal_scale\<close>, \<open>duckdb_decimal_internal_type\<close>;
  \<open>duckdb_enum_internal_type\<close>, \<open>duckdb_enum_dictionary_size\<close>,
  \<open>duckdb_enum_dictionary_value\<close>; the child types and the child names, a null name
  being \<open>None\<close>). \<open>LT_OTHER\<close> is any identifier the extraction has no case for.
\<close>

datatype duckdb_logical_type =
    LT_BOOLEAN | LT_TINYINT | LT_SMALLINT | LT_INTEGER | LT_BIGINT
  | LT_UTINYINT | LT_USMALLINT | LT_UINTEGER | LT_UBIGINT
  | LT_HUGEINT | LT_UHUGEINT | LT_FLOAT | LT_DOUBLE
  | LT_DECIMAL "8 word" "8 word" duckdb_type
  | LT_DATE | LT_TIME | LT_TIMESTAMP | LT_TIMESTAMP_S | LT_TIMESTAMP_MS | LT_TIMESTAMP_NS
  | LT_TIMESTAMP_TZ | LT_TIME_TZ | LT_INTERVAL
  | LT_UUID
  | LT_ENUM duckdb_type "32 word" "32 word \<Rightarrow> string option"
  | LT_BIT | LT_BLOB | LT_VARCHAR
  | LT_LIST duckdb_logical_type
  | LT_ARRAY duckdb_logical_type "64 word"
  | LT_STRUCT "(string option \<times> duckdb_logical_type) list"
  | LT_MAP duckdb_logical_type duckdb_logical_type
  | LT_UNION
  | LT_OTHER int

fun duckdb_get_type_id :: "duckdb_logical_type \<Rightarrow> duckdb_type" where
  "duckdb_get_type_id LT_BOOLEAN = DUCKDB_TYPE_BOOLEAN"
| "duckdb_get_type_id LT_TINYINT = DUCKDB_TYPE_TINYINT"
| "duckdb_get_type_id LT_SMALLINT = DUCKDB_TYPE_SMALLINT"
| "duckdb_get_type_id LT_INTEGER = DUCKDB_TYPE_INTEGER"
| "duckdb_get_type_id LT_BIGINT = DUCKDB_TYPE_BIGINT"
| "duckdb_get_type_id LT_UTINYINT = DUCKDB_TYPE_UTINYINT"
| "duckdb_get_type_id LT_USMALLINT = DUCKDB_TYPE_USMALLINT"
| "duckdb_get_type_id LT_UINTEGER = DUCKDB_TYPE_UINTEGER"
| "duckdb_get_type_id LT_UBIGINT = DUCKDB_TYPE_UBIGINT"
| "duckdb_get_type_id LT_HUGEINT = DUCKDB_TYPE_HUGEINT"
| "duckdb_get_type_id LT_UHUGEINT = DUCKDB_TYPE_UHUGEINT"
| "duckdb_get_type_id LT_FLOAT = DUCKDB_TYPE_FLOAT"
| "duckdb_get_type_id LT_DOUBLE = DUCKDB_TYPE_DOUBLE"
| "duckdb_get_type_id (LT_DECIMAL w s i) = DUCKDB_TYPE_DECIMAL"
| "duckdb_get_type_id LT_DATE = DUCKDB_TYPE_DATE"
| "duckdb_get_type_id LT_TIME = DUCKDB_TYPE_TIME"
| "duckdb_get_type_id LT_TIMESTAMP = DUCKDB_TYPE_TIMESTAMP"
| "duckdb_get_type_id LT_TIMESTAMP_S = DUCKDB_TYPE_TIMESTAMP_S"
| "duckdb_get_type_id LT_TIMESTAMP_MS = DUCKDB_TYPE_TIMESTAMP_MS"
| "duckdb_get_type_id LT_TIMESTAMP_NS = DUCKDB_TYPE_TIMESTAMP_NS"
| "duckdb_get_type_id LT_TIMESTAMP_TZ = DUCKDB_TYPE_TIMESTAMP_TZ"
| "duckdb_get_type_id LT_TIME_TZ = DUCKDB_TYPE_TIME_TZ"
| "duckdb_get_type_id LT_INTERVAL = DUCKDB_TYPE_INTERVAL"
| "duckdb_get_type_id LT_UUID = DUCKDB_TYPE_UUID"
| "duckdb_get_type_id (LT_ENUM i n d) = DUCKDB_TYPE_ENUM"
| "duckdb_get_type_id LT_BIT = DUCKDB_TYPE_BIT"
| "duckdb_get_type_id LT_BLOB = DUCKDB_TYPE_BLOB"
| "duckdb_get_type_id LT_VARCHAR = DUCKDB_TYPE_VARCHAR"
| "duckdb_get_type_id (LT_LIST c) = DUCKDB_TYPE_LIST"
| "duckdb_get_type_id (LT_ARRAY c n) = DUCKDB_TYPE_ARRAY"
| "duckdb_get_type_id (LT_STRUCT cs) = DUCKDB_TYPE_STRUCT"
| "duckdb_get_type_id (LT_MAP k v) = DUCKDB_TYPE_MAP"
| "duckdb_get_type_id LT_UNION = DUCKDB_TYPE_UNION"
| "duckdb_get_type_id (LT_OTHER n) = DUCKDB_TYPE_OTHER n"

record duckdb_list_entry =
  offset :: "64 word"
  length' :: "64 word"

record duckdb_interval =
  months :: "32 word"
  days :: "32 word"
  micros :: "64 word"

record duckdb_date_struct =
  year :: "32 word"
  month :: "8 word"
  day :: "8 word"

record duckdb_time_struct =
  hour :: "8 word"
  minute :: "8 word"
  sec :: "8 word"
  time_micros :: "32 word"

text \<open>
  The array behind a vector's data pointer, read at the element type the C code casts
  it to. Signed and unsigned reads of one width share a field (\<open>sint\<close> or \<open>uint\<close>
  tells them apart); \<open>string_data\<close> gives the bytes of a \<open>duckdb_string_t\<close>, as
  long as its length says. Reads past the end of the array are not modelled.
\<close>

record vdata =
  bool_data :: "nat \<Rightarrow> bool"
  int8_data :: "nat \<Rightarrow> 8 word"
  int16_data :: "nat \<Rightarrow> 16 word"
  int32_data :: "nat \<Rightarrow> 32 word"
  int64_data :: "nat \<Rightarrow> 64 word"
  hugeint_data :: "nat \<Rightarrow> duckdb_hugeint"
  float_data :: "nat \<Rightarrow> 32 word"
  double_data :: "nat \<Rightarrow> 64 word"
  string_data :: "nat \<Rightarrow> string"
  list_data :: "nat \<Rightarrow> duckdb_list_entry"
  interval_data :: "nat \<Rightarrow> duckdb_interval"

text \<open>
  A vector: its data pointer (\<open>None\<close> when null), its validity mask (\<open>None\<close> when
  null, meaning every row is valid) and its child vectors. \<open>NullVector\<close> is a null
  \<open>duckdb_vector\<close>, for which the engine's accessors return null.
\<close>

datatype duckdb_vector =
    NullVector
  | Vector "vdata option" "(nat \<Rightarrow> bool) option" "duckdb_vector list"

fun duckdb_vector_get_data :: "duckdb_vector \<Rightarrow> vdata option" where
  "duckdb_vector_get_data NullVector = None"
| "duckdb_vector_get_data (Vector d v cs) = d"

fun duckdb_vector_get_validity :: "duckdb_vector \<Rightarrow> (nat \<Rightarrow> bool) option" where
  "duckdb_vector_get_validity NullVector = None"
| "duckdb_vector_get_validity (Vector d v cs) = v"

fun duckdb_list_vector_get_child :: "duckdb_vector \<Rightarrow> duckdb_vector" where
  "duckdb_list_vector_get_child (Vector d v (c # cs)) = c"
| "duckdb_list_vector_get_child _ = NullVector"

fun duckdb_array_vector_get_child :: "duckdb_vector \<Rightarrow> duckdb_vector" where
  "duckdb_array_vector_get_child (Vector d v (c # cs)) = c"
| "duckdb_array_vector_get_child _ = NullVector"

fun duckdb_struct_vector_get_child :: "duckdb_vector \<Rightarrow> nat \<Rightarrow> duckdb_vector" where
  "duckdb_struct_vector_get_child (Vector d v cs) i = (if i < size cs then cs ! i else NullVector)"
| "duckdb_struct_vector_get_child NullVector i = NullVector"

text \<open>
  The functions of the engine and of the C library that the extraction calls and this
  repository does not define: the number of a type identifier, the calendar and clock
  decompositions, the conversions to \<open>double\<close>, its arithmetic, and \<open>%.10g\<close>.
\<close>

record platform =
  type_number :: "duckdb_type \<Rightarrow> int"
  duckdb_from_date :: "32 word \<Rightarrow> duckdb_date_struct"
  duckdb_from_time :: "64 word \<Rightarrow> duckdb_time_struct"
  duckdb_from_timestamp :: "64 word \<Rightarrow> duckdb_date_struct \<times> duckdb_time_struct"
  duckdb_from_time_tz :: "64 word \<Rightarrow> duckdb_time_struct \<times> 32 word"
  duckdb_decimal_to_double :: "8 word \<Rightarrow> 8 word \<Rightarrow> duckdb_hugeint \<Rightarrow> 64 word"
  printf_g10 :: "64 word \<Rightarrow> string"
  float_to_double :: "32 word \<Rightarrow> 64 word"
  int64_to_double :: "64 word \<Rightarrow> 64 word"
  double_mul :: "64 word \<Rightarrow> 64 word \<Rightarrow> 64 word"
  double_div :: "64 word \<Rightarrow> 64 word \<Rightarrow> 64 word"
  strtof :: "string \<Rightarrow> 32 word"
  strtod :: "string \<Rightarrow> 64 word"

section \<open>The vector path: \<open>extract_vector_value\<close>\<close>

text \<open>The \<open>DUCKDB_TYPE_DECIMAL\<close> case. The divisor is 1.0 multiplied \<open>scale\<close> times by 10.0.\<close>

definition double_1 :: "64 word" where "double_1 = 0x3FF0000000000000"
definition double_10 :: "64 word" where "double_10 = 0x4024000000000000"

primrec decimal_divisor :: "platform \<Rightarrow> nat \<Rightarrow> 64 word" where
  "decimal_divisor X 0 = double_1"
| "decimal_divisor X (Suc n) = double_mul X (decimal_divisor X n) double_10"

definition format_decimal :: "platform \<Rightarrow> 8 word \<Rightarrow> 64 word \<Rightarrow> eterm" where
  "format_decimal X scale raw_value =
     (if scale = 0 then Integer (sint raw_value)
      else enif_make_double
             (double_div X (int64_to_double X raw_value) (decimal_divisor X (unat scale))))"

definition extract_decimal ::
  "platform \<Rightarrow> vdata \<Rightarrow> 8 word \<Rightarrow> 8 word \<Rightarrow> duckdb_type \<Rightarrow> nat \<Rightarrow> eterm" where
  "extract_decimal X data width scale internal_type row_idx =
     (case internal_type of
        DUCKDB_TYPE_SMALLINT \<Rightarrow> format_decimal X scale (scast (int16_data data row_idx))
      | DUCKDB_TYPE_INTEGER \<Rightarrow> format_decimal X scale (scast (int32_data data row_idx))
      | DUCKDB_TYPE_BIGINT \<Rightarrow> format_decimal X scale (int64_data data row_idx)
      | DUCKDB_TYPE_HUGEINT \<Rightarrow>
          Binary (printf_g10 X (duckdb_decimal_to_double X width scale (hugeint_data data row_idx)))
      | _ \<Rightarrow> Binary (''unsupported_decimal_internal_type_'' @ show_int (type_number X internal_type)))"

text \<open>The \<open>DUCKDB_TYPE_UUID\<close> case: \<open>%08llx-%04llx-%04llx-%04llx-%012llx\<close>.\<close>

definition extract_uuid :: "duckdb_hugeint \<Rightarrow> eterm" where
  "extract_uuid uuid =
     Binary (show_hex_pad 8 (unat (signed_drop_bit 32 (upper uuid) AND 0xFFFFFFFF)) @ ''-'' @
             show_hex_pad 4 (unat (signed_drop_bit 16 (upper uuid) AND 0xFFFF)) @ ''-'' @
             show_hex_pad 4 (unat (upper uuid AND 0xFFFF)) @ ''-'' @
             show_hex_pad 4 (unat (drop_bit 48 (lower uuid) AND 0xFFFF)) @ ''-'' @
             show_hex_pad 12 (unat (lower uuid AND 0xFFFFFFFFFFFF)))"

text \<open>The \<open>DUCKDB_TYPE_ENUM\<close> case.\<close>

definition extract_enum ::
  "vdata \<Rightarrow> duckdb_type \<Rightarrow> 32 word \<Rightarrow> (32 word \<Rightarrow> string option) \<Rightarrow> nat \<Rightarrow> eterm" where
  "extract_enum data internal_type dict_size dictionary_value row_idx =
     (case (case internal_type of
              DUCKDB_TYPE_UTINYINT \<Rightarrow> Some (ucast (int8_data data row_idx))
            | DUCKDB_TYPE_USMALLINT \<Rightarrow> Some (ucast (int16_data data row_idx))
            | DUCKDB_TYPE_UINTEGER \<Rightarrow> Some (int32_data data row_idx)
            | _ \<Rightarrow> None) of
        None \<Rightarrow> Atom ''unsupported_enum_internal_type''
      | Some enum_index \<Rightarrow>
          (if enum_index < dict_size
           then (case dictionary_value enum_index of
                   Some enum_string \<Rightarrow> Binary enum_string
                 | None \<Rightarrow> Atom ''invalid_enum_value'')
           else Atom ''invalid_enum_value''))"

text \<open>The \<open>DUCKDB_TYPE_UHUGEINT\<close> case: \<open>%llu\<close>, or \<open>%llu%016llx\<close>.\<close>

definition extract_uhugeint :: "duckdb_hugeint \<Rightarrow> eterm" where
  "extract_uhugeint v =
     (if upper v = 0 then Binary (show_nat (unat (lower v)))
      else Binary (show_nat (unat (upper v)) @ show_hex_pad 16 (unat (lower v))))"

definition format_date :: "duckdb_date_struct \<Rightarrow> string" where
  "format_date d = show_int_pad 4 (sint (year d)) @ ''-'' @ show_int_pad 2 (sint (month d)) @
                   ''-'' @ show_int_pad 2 (sint (day d))"

definition format_time :: "duckdb_time_struct \<Rightarrow> string" where
  "format_time t = show_int_pad 2 (sint (hour t)) @ '':'' @ show_int_pad 2 (sint (minute t)) @
                   '':'' @ show_int_pad 2 (sint (sec t)) @ ''.'' @
                   show_int_pad 6 (sint (time_micros t))"

definition is_complex_type :: "duckdb_type \<Rightarrow> bool" where
  "is_complex_type type_id =
     (type_id = DUCKDB_TYPE_STRUCT \<or> type_id = DUCKDB_TYPE_LIST \<or>
      type_id = DUCKDB_TYPE_ARRAY \<or> type_id = DUCKDB_TYPE_MAP)"

text \<open>
  The cases of the switch for the types that are not nested (the nested ones are cases
  of \<open>extract_vector_value\<close> below); the data pointer has been checked before.
\<close>

fun extract_scalar :: "platform \<Rightarrow> vdata \<Rightarrow> duckdb_logical_type \<Rightarrow> nat \<Rightarrow> eterm" where
  "extract_scalar X data LT_BOOLEAN row_idx =
     (if bool_data data row_idx then Atom ''true'' else Atom ''false'')"
| "extract_scalar X data LT_TINYINT row_idx = Integer (sint (int8_data data row_idx))"
| "extract_scalar X data LT_SMALLINT row_idx = Integer (sint (int16_data data row_idx))"
| "extract_scalar X data LT_INTEGER row_idx = Integer (sint (int32_data data row_idx))"
| "extract_scalar X data LT_BIGINT row_idx = Integer (sint (int64_data data row_idx))"
| "extract_scalar X data LT_UTINYINT row_idx = Integer (uint (int8_data data row_idx))"
| "extract_scalar X data LT_USMALLINT row_idx = Integer (uint (int16_data data row_idx))"
| "extract_scalar X data LT_UINTEGER row_idx = Integer (uint (int32_data data row_idx))"
| "extract_scalar X data LT_UBIGINT row_idx = Integer (uint (int64_data data row_idx))"
| "extract_scalar X data LT_HUGEINT row_idx = extract_hugeint (hugeint_data data row_idx)"
| "extract_scalar X data LT_FLOAT row_idx =
     enif_make_double (float_to_double X (float_data data row_idx))"
| "extract_scalar X data LT_DOUBLE row_idx = enif_make_double (double_data data row_idx)"
| "extract_scalar X data (LT_DECIMAL width scale internal_type) row_idx =
     extract_decimal X data width scale internal_type row_idx"
| "extract_scalar X data LT_DATE row_idx =
     Binary (format_date (duckdb_from_date X (int32_data data row_idx)))"
| "extract_scalar X data LT_TIME row_idx =
     Binary (format_time (duckdb_from_time X (int64_data data row_idx)))"
| "extract_scalar X data LT_TIMESTAMP row_idx =
     (let ts_struct = duckdb_from_timestamp X (int64_data data row_idx)
      in Binary (format_date (fst ts_struct) @ '' '' @ format_time (snd ts_struct)))"
| "extract_scalar X data LT_TIMESTAMP_S row_idx = Binary (show_int (sint (int64_data data row_idx)))"
| "extract_scalar X data LT_TIMESTAMP_MS row_idx = Binary (show_int (sint (int64_data data row_idx)))"
| "extract_scalar X data LT_TIMESTAMP_NS row_idx = Binary (show_int (sint (int64_data data row_idx)))"
| "extract_scalar X data LT_TIMESTAMP_TZ row_idx = Atom ''unsupported_timestamp_tz_type''"
| "extract_scalar X data LT_TIME_TZ row_idx =
     (let decomposed = duckdb_from_time_tz X (int64_data data row_idx)
      in Tuple [Integer (sint (time_micros (fst decomposed))), Integer (sint (snd decomposed))])"
| "extract_scalar X data LT_UUID row_idx = extract_uuid (hugeint_data data row_idx)"
| "extract_scalar X data (LT_ENUM internal_type dict_size dictionary_value) row_idx =
     extract_enum data internal_type dict_size dictionary_value row_idx"
| "extract_scalar X data LT_BIT row_idx = Binary (string_data data row_idx)"
| "extract_scalar X data LT_UHUGEINT row_idx = extract_uhugeint (hugeint_data data row_idx)"
| "extract_scalar X data LT_INTERVAL row_idx =
     (let interval = interval_data data row_idx
      in Tuple [Integer (sint (months interval)), Integer (sint (days interval)),
                Integer (sint (micros interval))])"
| "extract_scalar X data LT_BLOB row_idx = Binary (string_data data row_idx)"
| "extract_scalar X data LT_VARCHAR row_idx = Binary (string_data data row_idx)"
| "extract_scalar X data LT_UNION row_idx =
     Atom (''unsupported_union_type_'' @ show_int (type_number X DUCKDB_TYPE_UNION))"
| "extract_scalar X data lt row_idx =
     Atom (''unsupported_type_'' @ show_int (type_number X (duckdb_get_type_id lt)))"

text \<open>
  The two checks before the switch: a null data pointer (for the types that are not
  nested) and a validity mask that marks the row null both give \<open>nil\<close>.
\<close>

definition cell_is_null :: "duckdb_vector \<Rightarrow> duckdb_logical_type \<Rightarrow> nat \<Rightarrow> bool" where
  "cell_is_null vector logical_type row_idx =
     ((\<not> is_complex_type (duckdb_get_type_id logical_type) \<and> duckdb_vector_get_data vector = None) \<or>
      (case duckdb_vector_get_validity vector of
         None \<Rightarrow> False
       | Some validity \<Rightarrow> \<not> validity row_idx))"

text \<open>
  \<open>extract_vector_value\<close>. Row indices are natural numbers (the wrap-around of
  \<open>idx_t\<close> is out of reach of an index into an array); allocation is taken to succeed.
  \<open>extract_struct_fields\<close> is the loop over the fields of a struct, from field \<open>i\<close>
  on: \<open>None\<close> when a field name is null, else the keys with their values.
\<close>

fun extract_vector_value ::
      "platform \<Rightarrow> duckdb_vector \<Rightarrow> duckdb_logical_type \<Rightarrow> nat \<Rightarrow> eterm"
  and extract_struct_fields ::
      "platform \<Rightarrow> duckdb_vector \<Rightarrow> (string option \<times> duckdb_logical_type) list \<Rightarrow> nat \<Rightarrow> nat
         \<Rightarrow> (eterm \<times> eterm) list option"
where
  "extract_vector_value X vector (LT_ARRAY child_type array_size) row_idx =
     (if cell_is_null vector (LT_ARRAY child_type array_size) row_idx then atom_nil
      else if array_size = 0 then List []
      else if duckdb_array_vector_get_child vector = NullVector then List []
      else List (map (\<lambda>i. extract_vector_value X (duckdb_array_vector_get_child vector) child_type
                              (row_idx * unat array_size + i))
                     [0..<unat array_size]))"
| "extract_vector_value X vector (LT_LIST child_type) row_idx =
     (if cell_is_null vector (LT_LIST child_type) row_idx then atom_nil
      else case duckdb_vector_get_data vector of
             None \<Rightarrow> Fault
           | Some data \<Rightarrow>
               (let entry = list_data data row_idx
                in if length' entry = 0 then List []
                   else if duckdb_list_vector_get_child vector = NullVector then List []
                   else List (map (\<lambda>i. extract_vector_value X (duckdb_list_vector_get_child vector)
                                           child_type (unat (offset entry) + i))
                                  [0..<unat (length' entry)])))"
| "extract_vector_value X vector (LT_STRUCT children) row_idx =
     (if cell_is_null vector (LT_STRUCT children) row_idx then atom_nil
      else if children = [] then Map []
      else case extract_struct_fields X vector children 0 row_idx of
             None \<Rightarrow> atom_nil
           | Some pairs \<Rightarrow>
               (case enif_make_map_from_arrays (map fst pairs) (map snd pairs) of
                  None \<Rightarrow> Atom ''struct_conversion_failed''
                | Some result_map \<Rightarrow> result_map))"
| "extract_vector_value X vector (LT_MAP key_type value_type) row_idx =
     (if cell_is_null vector (LT_MAP key_type value_type) row_idx then atom_nil
      else case duckdb_vector_get_data vector of
             None \<Rightarrow> Fault
           | Some data \<Rightarrow>
               (let entry = list_data data row_idx;
                    child_vector = duckdb_list_vector_get_child vector;
                    key_vector = duckdb_struct_vector_get_child child_vector 0;
                    value_vector = duckdb_struct_vector_get_child child_vector 1;
                    keys = map (\<lambda>i. extract_vector_value X key_vector key_type
                                        (unat (offset entry) + i))
                               [0..<unat (length' entry)];
                    vals = map (\<lambda>i. extract_vector_value X value_vector value_type
                                        (unat (offset entry) + i))
                               [0..<unat (length' entry)]
                in case enif_make_map_from_arrays keys vals of
                     None \<Rightarrow> Atom ''map_conversion_failed''
                   | Some result_map \<Rightarrow> result_map))"
| "extract_vector_value X vector logical_type row_idx =
     (if cell_is_null vector logical_type row_idx then atom_nil
      else case duckdb_vector_get_data vector of
             None \<Rightarrow> atom_nil
           | Some data \<Rightarrow> extract_scalar X data logical_type row_idx)"
| "extract_struct_fields X vector [] i row_idx = Some []"
| "extract_struct_fields X vector ((child_name, child_type) # rest) i row_idx =
     (case child_name of
        None \<Rightarrow> None
      | Some name \<Rightarrow>
          (case extract_struct_fields X vector rest (Suc i) row_idx of
             None \<Rightarrow> None
           | Some pairs \<Rightarrow>
               Some ((Binary name,
                      extract_vector_value X (duckdb_struct_vector_get_child vector i) child_type
                        row_idx) # pairs)))"

text \<open>\<open>data_chunk_get_data_nif\<close>, for a chunk given as its size and its columns.\<close>

record duckdb_data_chunk =
  chunk_size :: nat
  chunk_columns :: "(duckdb_vector \<times> duckdb_logical_type) list"

definition data_chunk_get_data :: "platform \<Rightarrow> duckdb_data_chunk \<Rightarrow> eterm" where
  "data_chunk_get_data X chunk =
     List (map (\<lambda>r. Tuple (map (\<lambda>(vector, logical_type).
                                    extract_vector_value X vector logical_type r)
                                (chunk_columns chunk)))
               [0..<chunk_size chunk])"

section \<open>The row-oriented path: \<open>result_rows_nif\<close>\<close>

text \<open>
  \<open>strtoull(str, NULL, 10)\<close>: as \<open>strtoll\<close>, but the value is unsigned, a minus
  sign negates it modulo \<open>2^64\<close>, and a value out of range is \<open>ULLONG_MAX\<close>. With a
  64-bit \<open>long\<close>, \<open>strtol\<close> is \<open>strtoll\<close> and \<open>strtoul\<close> is \<open>strtoull\<close>.
\<close>

definition ULLONG_MAX :: nat where "ULLONG_MAX = 18446744073709551615"

definition strtoull :: "string \<Rightarrow> nat" where
  "strtoull str =
     (let s1 = dropWhile isspace str;
          neg = (s1 \<noteq> [] \<and> hd s1 = CHR ''-'');
          s2 = (if s1 \<noteq> [] \<and> (hd s1 = CHR ''-'' \<or> hd s1 = CHR ''+'') then tl s1 else s1);
          ds = takeWhile isdigit s2;
          v = digits_value ds
      in if ds = [] then 0
         else if v > ULLONG_MAX then ULLONG_MAX
         else if neg then (2 ^ 64 - v) mod 2 ^ 64 else v)"

definition strtol :: "string \<Rightarrow> int" where
  "strtol str = fst (strtoll str)"

definition strtoul :: "string \<Rightarrow> nat" where
  "strtoul str = strtoull str"

text \<open>
  A materialized result, as the engine's accessors show it: the counts, the type of
  each column, and for the cell at a column and a row \<open>duckdb_value_is_null\<close>,
  \<open>duckdb_value_varchar\<close> (\<open>None\<close> for a null pointer, else the text up to its
  terminator) and \<open>duckdb_value_blob\<close> (\<open>None\<close> for a null data pointer, else the
  bytes, as many as the size says).
\<close>

record duckdb_result =
  duckdb_column_count :: nat
  duckdb_row_count :: nat
  duckdb_column_type :: "nat \<Rightarrow> duckdb_type"
  duckdb_value_is_null :: "nat \<Rightarrow> nat \<Rightarrow> bool"
  duckdb_value_varchar :: "nat \<Rightarrow> nat \<Rightarrow> string option"
  duckdb_value_blob :: "nat \<Rightarrow> nat \<Rightarrow> string option"

text \<open>
  The branch most types share: the text as a binary when it is there, not empty and
  not \<open>NULL\<close>; else the second argument.
\<close>

definition varchar_binary_or :: "string option \<Rightarrow> eterm \<Rightarrow> eterm" where
  "varchar_binary_or varchar other =
     (case varchar of
        None \<Rightarrow> other
      | Some str \<Rightarrow> if str \<noteq> [] \<and> str \<noteq> ''NULL'' then Binary str else other)"

definition row_float :: "platform \<Rightarrow> string option \<Rightarrow> eterm" where
  "row_float X varchar =
     (case varchar of
        None \<Rightarrow> atom_nil
      | Some str \<Rightarrow>
          (let val = strtof X str
           in if isnan32 val then Atom ''nan''
              else if isinf32 val
                   then (if gt_zero32 val then Atom ''infinity'' else Atom ''negative_infinity'')
                   else enif_make_double (float_to_double X val)))"

definition row_double :: "platform \<Rightarrow> string option \<Rightarrow> eterm" where
  "row_double X varchar =
     (case varchar of
        None \<Rightarrow> atom_nil
      | Some str \<Rightarrow>
          (let val = strtod X str
           in if isnan64 val then Atom ''nan''
              else if isinf64 val
                   then (if gt_zero64 val then Atom ''infinity'' else Atom ''negative_infinity'')
                   else enif_make_double val))"

text \<open>The body of the loop over the columns of a row, for column \<open>c\<close> of row \<open>r\<close>.\<close>

definition extract_row_value :: "platform \<Rightarrow> duckdb_result \<Rightarrow> nat \<Rightarrow> nat \<Rightarrow> eterm" where
  "extract_row_value X res c r =
     (let type = duckdb_column_type res c;
          is_null = duckdb_value_is_null res c r;
          varchar = duckdb_value_varchar res c r
      in if is_null then atom_nil
         else if type = DUCKDB_TYPE_UUID then varchar_binary_or varchar atom_nil
         else case type of
           DUCKDB_TYPE_BOOLEAN \<Rightarrow>
             (case varchar of
                None \<Rightarrow> atom_nil
              | Some str \<Rightarrow> if str = ''true'' \<or> str = ''1'' then Atom ''true'' else Atom ''false'')
         | DUCKDB_TYPE_TINYINT \<Rightarrow>
             (case varchar of None \<Rightarrow> atom_nil
              | Some str \<Rightarrow> Integer (sint (word_of_int (strtol str) :: 8 word)))
         | DUCKDB_TYPE_SMALLINT \<Rightarrow>
             (case varchar of None \<Rightarrow> atom_nil
              | Some str \<Rightarrow> Integer (sint (word_of_int (strtol str) :: 16 word)))
         | DUCKDB_TYPE_INTEGER \<Rightarrow>
             (case varchar of None \<Rightarrow> atom_nil
              | Some str \<Rightarrow> Integer (sint (word_of_int (strtol str) :: 32 word)))
         | DUCKDB_TYPE_BIGINT \<Rightarrow>
             (case varchar of None \<Rightarrow> atom_nil
              | Some str \<Rightarrow> Integer (fst (strtoll str)))
         | DUCKDB_TYPE_UTINYINT \<Rightarrow>
             (case varchar of None \<Rightarrow> atom_nil
              | Some str \<Rightarrow> Integer (uint (word_of_nat (strtoul str) :: 8 word)))
         | DUCKDB_TYPE_USMALLINT \<Rightarrow>
             (case varchar of None \<Rightarrow> atom_nil
              | Some str \<Rightarrow> Integer (uint (word_of_nat (strtoul str) :: 16 word)))
         | DUCKDB_TYPE_UINTEGER \<Rightarrow>
             (case varchar of None \<Rightarrow> atom_nil
              | Some str \<Rightarrow> Integer (uint (word_of_nat (strtoul str) :: 32 word)))
         | DUCKDB_TYPE_UBIGINT \<Rightarrow>
             (case varchar of None \<Rightarrow> atom_nil
              | Some str \<Rightarrow> Integer (int (strtoull str)))
         | DUCKDB_TYPE_DECIMAL \<Rightarrow> varchar_binary_or varchar atom_nil
         | DUCKDB_TYPE_TIMESTAMP \<Rightarrow>
             varchar_binary_or varchar (Binary ''<timestamp_extraction_failed>'')
         | DUCKDB_TYPE_TIMESTAMP_S \<Rightarrow>
             varchar_binary_or varchar (Binary ''<timestamp_extraction_failed>'')
         | DUCKDB_TYPE_TIMESTAMP_MS \<Rightarrow>
             varchar_binary_or varchar (Binary ''<timestamp_extraction_failed>'')
         | DUCKDB_TYPE_TIMESTAMP_NS \<Rightarrow>
             varchar_binary_or varchar (Binary ''<timestamp_extraction_failed>'')
         | DUCKDB_TYPE_TIMESTAMP_TZ \<Rightarrow>
             varchar_binary_or varchar (Binary ''<timestamp_extraction_failed>'')
         | DUCKDB_TYPE_HUGEINT \<Rightarrow> hugeint_to_elixir_integer_via_varchar varchar
         | DUCKDB_TYPE_FLOAT \<Rightarrow> row_float X varchar
         | DUCKDB_TYPE_DOUBLE \<Rightarrow> row_double X varchar
         | DUCKDB_TYPE_DATE \<Rightarrow> varchar_binary_or varchar atom_nil
         | DUCKDB_TYPE_TIME \<Rightarrow> varchar_binary_or varchar atom_nil
         | DUCKDB_TYPE_INTERVAL \<Rightarrow> varchar_binary_or varchar atom_nil
         | DUCKDB_TYPE_BLOB \<Rightarrow>
             (case duckdb_value_blob res c r of
                None \<Rightarrow> Binary []
              | Some bytes \<Rightarrow> Binary bytes)
         | DUCKDB_TYPE_VARCHAR \<Rightarrow>
             (case varchar of None \<Rightarrow> atom_nil | Some str \<Rightarrow> Binary str)
         | DUCKDB_TYPE_TIME_TZ \<Rightarrow> varchar_binary_or varchar atom_nil
         | DUCKDB_TYPE_BIT \<Rightarrow> varchar_binary_or varchar atom_nil
         | DUCKDB_TYPE_UHUGEINT \<Rightarrow> varchar_binary_or varchar atom_nil
         | DUCKDB_TYPE_ENUM \<Rightarrow>
             varchar_binary_or varchar (Binary ''<regular_api_enum_limitation>'')
         | DUCKDB_TYPE_UUID \<Rightarrow> Binary ''<regular_api_uuid_limitation>''
         | DUCKDB_TYPE_LIST \<Rightarrow> varchar_binary_or varchar (Binary ''<unsupported_list_type>'')
         | DUCKDB_TYPE_STRUCT \<Rightarrow> varchar_binary_or varchar (Binary ''<unsupported_struct_type>'')
         | DUCKDB_TYPE_MAP \<Rightarrow> varchar_binary_or varchar (Binary ''<unsupported_map_type>'')
         | DUCKDB_TYPE_ARRAY \<Rightarrow> varchar_binary_or varchar (Binary ''<unsupported_array_type>'')
         | DUCKDB_TYPE_UNION \<Rightarrow> varchar_binary_or varchar atom_nil
         | _ \<Rightarrow> varchar_binary_or varchar atom_nil)"

text \<open>
  The scan for a UUID column and the loop over the rows: with a UUID column among more
  than one column every cell is \<open>nil\<close>.
\<close>

definition has_uuid :: "duckdb_result \<Rightarrow> bool" where
  "has_uuid res =
     list_ex (\<lambda>c. duckdb_column_type res c = DUCKDB_TYPE_UUID) [0..<duckdb_column_count res]"

definition result_row :: "platform \<Rightarrow> duckdb_result \<Rightarrow> nat \<Rightarrow> eterm" where
  "result_row X res r =
     Tuple (if has_uuid res \<and> duckdb_column_count res > 1
            then map (\<lambda>c. atom_nil) [0..<duckdb_column_count res]
            else map (\<lambda>c. extract_row_value X res c r) [0..<duckdb_column_count res])"

definition result_rows :: "platform \<Rightarrow> duckdb_result \<Rightarrow> eterm" where
  "result_rows X res = List (map (result_row X res) [0..<duckdb_row_count res])"

section \<open>The engine behind the handles\<close>

text \<open>
  A handle of the engine is a pointer: \<open>None\<close> is the null pointer. The engine is not
  part of this repository; it is a parameter. Its state is the history of the calls made
  to it, and it answers a call from the history before that call. An answer carries the
  returned \<open>duckdb_state\<close>, the handle the call leaves behind its pointer argument (for
  the calls that take a pointer to a handle), a message and a count; each call reads
  the parts it returns.
\<close>

type_synonym handle = "nat option"

datatype duckdb_state = DuckDBSuccess | DuckDBError

datatype engine_call =
    Appender_destroy handle
  | Appender_close handle
  | Append_int8 handle "8 word"
  | Appender_error handle
  | Nparams handle
  | Bind_null handle nat
  | Bind_boolean handle nat bool
  | Bind_int64 handle nat "64 word"
  | Bind_double handle nat "64 word"
  | Bind_varchar handle nat string
  | Execute_prepared handle
  | Result_error handle
  | Destroy_result handle

record answer =
  status :: duckdb_state
  out_handle :: handle
  message :: "string option"
  number :: nat

type_synonym engine = "engine_call list \<Rightarrow> engine_call \<Rightarrow> answer"

text \<open>
  The resources the host holds, by the number of the resource term, and the history of
  the engine calls so far. \<open>next_resource\<close> numbers the next resource allocated.
\<close>

datatype resource =
    ResultResource handle
  | PreparedStatementResource handle
  | AppenderResource handle

record world =
  history :: "engine_call list"
  resources :: "nat \<Rightarrow> resource option"
  next_resource :: nat

definition engine_call :: "engine \<Rightarrow> world \<Rightarrow> engine_call \<Rightarrow> answer \<times> world" where
  "engine_call E w c = (E (history w) c, w\<lparr>history := history w @ [c]\<rparr>)"

text \<open>\<open>enif_get_resource\<close> for the two resource types used below.\<close>

definition get_appender_resource :: "world \<Rightarrow> eterm \<Rightarrow> (nat \<times> handle) option" where
  "get_appender_resource w t =
     (case t of
        Resource n \<Rightarrow> (case resources w n of Some (AppenderResource h) \<Rightarrow> Some (n, h) | _ \<Rightarrow> None)
      | _ \<Rightarrow> None)"

definition get_prepared_statement_resource :: "world \<Rightarrow> eterm \<Rightarrow> handle option" where
  "get_prepared_statement_resource w t =
     (case t of
        Resource n \<Rightarrow> (case resources w n of Some (PreparedStatementResource h) \<Rightarrow> Some h | _ \<Rightarrow> None)
      | _ \<Rightarrow> None)"

definition set_appender :: "world \<Rightarrow> nat \<Rightarrow> handle \<Rightarrow> world" where
  "set_appender w n h = w\<lparr>resources := (resources w)(n \<mapsto> AppenderResource h)\<rparr>"

section \<open>The appender\<close>

text \<open>
  \<open>appender_destroy_nif\<close>. \<open>duckdb_appender_destroy\<close> takes the address of the
  handle in the resource, so the handle it leaves is stored back; on success the
  handle is then set to null.
\<close>

definition appender_destroy_nif :: "engine \<Rightarrow> world \<Rightarrow> eterm list \<Rightarrow> eterm \<times> world" where
  "appender_destroy_nif E w argv =
     (if size argv \<noteq> 1 then (Badarg, w)
      else case get_appender_resource w (argv ! 0) of
             None \<Rightarrow> (Badarg, w)
           | Some (n, appender) \<Rightarrow>
               (let (a, w1) = engine_call E w (Appender_destroy appender);
                    w2 = set_appender w1 n (out_handle a)
                in if status a = DuckDBError
                   then (make_error ''Failed to destroy appender'', w2)
                   else (atom_ok, set_appender w2 n None)))"

text \<open>\<open>appender_close_nif\<close>: the handle stays in the resource.\<close>

definition appender_close_nif :: "engine \<Rightarrow> world \<Rightarrow> eterm list \<Rightarrow> eterm \<times> world" where
  "appender_close_nif E w argv =
     (if size argv \<noteq> 1 then (Badarg, w)
      else case get_appender_resource w (argv ! 0) of
             None \<Rightarrow> (Badarg, w)
           | Some (n, appender) \<Rightarrow>
               (let (a, w1) = engine_call E w (Appender_close appender)
                in if status a = DuckDBError
                   then (let (e, w2) = engine_call E w1 (Appender_error appender)
                         in (make_error (case message e of
                                           Some error_msg \<Rightarrow> error_msg
                                         | None \<Rightarrow> ''Unknown appender close error''),
                             w2))
                   else (atom_ok, w1)))"

text \<open>
  \<open>appender_resource_destructor\<close>, run when the host collects resource \<open>n\<close>: the
  engine is called only for a handle that is not null.
\<close>

definition appender_resource_destructor :: "engine \<Rightarrow> world \<Rightarrow> nat \<Rightarrow> world" where
  "appender_resource_destructor E w n =
     (case resources w n of
        Some (AppenderResource (Some p)) \<Rightarrow>
          (let (a, w1) = engine_call E w (Appender_destroy (Some p))
           in set_appender w1 n (out_handle a))
      | _ \<Rightarrow> w)"

text \<open>
  \<open>enif_get_int\<close> succeeds for an integer term that fits a 32-bit \<open>int\<close>, and gives
  its value.
\<close>

definition enif_get_int :: "eterm \<Rightarrow> int option" where
  "enif_get_int t =
     (case t of
        Integer i \<Rightarrow> if - 2147483648 \<le> i \<and> i \<le> 2147483647 then Some i else None
      | _ \<Rightarrow> None)"

text \<open>\<open>appender_append_int8_nif\<close>.\<close>

definition appender_append_int8_nif :: "engine \<Rightarrow> world \<Rightarrow> eterm list \<Rightarrow> eterm \<times> world" where
  "appender_append_int8_nif E w argv =
     (if size argv \<noteq> 2 then (Badarg, w)
      else case get_appender_resource w (argv ! 0) of
             None \<Rightarrow> (Badarg, w)
           | Some (n, appender) \<Rightarrow>
               (case enif_get_int (argv ! 1) of
                  None \<Rightarrow> (Badarg, w)
                | Some val \<Rightarrow>
                    if val < - 128 \<or> val > 127
                    then (make_error ''Value out of range for int8'', w)
                    else (let (a, w1) = engine_call E w (Append_int8 appender (word_of_int val))
                          in if status a = DuckDBError
                             then (let (e, w2) = engine_call E w1 (Appender_error appender)
                                   in (make_error (case message e of
                                                     Some error_msg \<Rightarrow> error_msg
                                                   | None \<Rightarrow> ''Unknown appender append error''),
                                       w2))
                             else (atom_ok, w1))))"

section \<open>Prepared statements\<close>

text \<open>
  \<open>enif_get_long\<close> (a 64-bit \<open>long\<close>) and \<open>enif_get_string\<close> with a buffer of 1024
  bytes and Latin-1: the latter succeeds for a list of character codes below 256 that
  fits the buffer with its terminator. A C string ends at its first zero byte.
\<close>

definition enif_get_long :: "eterm \<Rightarrow> int option" where
  "enif_get_long t =
     (case t of
        Integer i \<Rightarrow> if LLONG_MIN \<le> i \<and> i \<le> LLONG_MAX then Some i else None
      | _ \<Rightarrow> None)"

definition char_code :: "eterm \<Rightarrow> char option" where
  "char_code t =
     (case t of
        Integer i \<Rightarrow> if 0 \<le> i \<and> i < 256 then Some (char_of (nat i)) else None
      | _ \<Rightarrow> None)"

definition enif_get_string :: "eterm \<Rightarrow> string option" where
  "enif_get_string t =
     (case t of
        List xs \<Rightarrow>
          if list_all (\<lambda>x. char_code x \<noteq> None) xs \<and> size xs < 1024
          then Some (map (\<lambda>x. the (char_code x)) xs) else None
      | _ \<Rightarrow> None)"

definition c_string :: "string \<Rightarrow> string" where
  "c_string bytes = takeWhile (\<lambda>c. c \<noteq> CHR 0x00) bytes"

text \<open>\<open>bind_parameter\<close>: the engine call chosen by the shape of the term, if any.\<close>

definition bind_call :: "handle \<Rightarrow> nat \<Rightarrow> eterm \<Rightarrow> engine_call option" where
  "bind_call stmt param_idx param =
     (if param = atom_nil then Some (Bind_null stmt param_idx)
      else if param = Atom ''true'' then Some (Bind_boolean stmt param_idx True)
      else if param = Atom ''false'' then Some (Bind_boolean stmt param_idx False)
      else case enif_get_long param of
             Some long_val \<Rightarrow> Some (Bind_int64 stmt param_idx (word_of_int long_val))
           | None \<Rightarrow>
               (case param of
                  Double double_val \<Rightarrow> Some (Bind_double stmt param_idx double_val)
                | Binary bin \<Rightarrow> Some (Bind_varchar stmt param_idx (c_string bin))
                | _ \<Rightarrow>
                    (case enif_get_string param of
                       Some str_buffer \<Rightarrow> Some (Bind_varchar stmt param_idx (c_string str_buffer))
                     | None \<Rightarrow> None)))"

definition bind_parameter ::
  "engine \<Rightarrow> world \<Rightarrow> handle \<Rightarrow> nat \<Rightarrow> eterm \<Rightarrow> duckdb_state \<times> world" where
  "bind_parameter E w stmt param_idx param =
     (case bind_call stmt param_idx param of
        None \<Rightarrow> (DuckDBError, w)
      | Some c \<Rightarrow> (let (a, w1) = engine_call E w c in (status a, w1)))"

text \<open>
  The binding loop, from the parameter after index \<open>i\<close>: it stops at the first
  binding that fails and gives its 1-based index.
\<close>

fun bind_parameters ::
  "engine \<Rightarrow> world \<Rightarrow> handle \<Rightarrow> nat \<Rightarrow> eterm list \<Rightarrow> nat option \<times> world" where
  "bind_parameters E w stmt i [] = (None, w)"
| "bind_parameters E w stmt i (head # tail) =
     (let (bind_state, w1) = bind_parameter E w stmt (i + 1) head
      in if bind_state = DuckDBError then (Some (i + 1), w1)
         else bind_parameters E w1 stmt (i + 1) tail)"

text \<open>
  \<open>prepared_statement_execute_nif\<close>. The list of the model is a proper list, so
  \<open>enif_get_list_length\<close> and \<open>enif_get_list_cell\<close> succeed on it. When the
  engine refuses the execution, the result is destroyed twice: by the explicit
  \<open>duckdb_destroy_result\<close>, and again by \<open>result_resource_destructor\<close>, which
  \<open>enif_release_resource\<close> runs on the resource that no term holds; the second call
  gets the result as the first one left it.
\<close>

definition prepared_statement_execute_nif ::
  "engine \<Rightarrow> world \<Rightarrow> eterm list \<Rightarrow> eterm \<times> world" where
  "prepared_statement_execute_nif E w argv =
     (if size argv \<noteq> 2 then (Badarg, w)
      else case get_prepared_statement_resource w (argv ! 0) of
             None \<Rightarrow> (Badarg, w)
           | Some stmt \<Rightarrow>
               (case argv ! 1 of
                  List params \<Rightarrow>
                    (let (n, w1) = engine_call E w (Nparams stmt);
                         param_count = number n;
                         list_length = size params
                     in if list_length \<noteq> param_count
                        then (make_error (''Parameter count mismatch: expected '' @
                                          show_nat param_count @ '', got '' @ show_nat list_length),
                              w1)
                        else case bind_parameters E w1 stmt 0 params of
                               (Some i, w2) \<Rightarrow>
                                 (make_error (''Failed to bind parameter '' @ show_nat i), w2)
                             | (None, w2) \<Rightarrow>
                                 (let (x, w3) = engine_call E w2 (Execute_prepared stmt)
                                  in if status x = DuckDBError
                                     then (let (e, w4) = engine_call E w3 (Result_error (out_handle x));
                                               (d, w5) = engine_call E w4 (Destroy_result (out_handle x));
                                               (d', w6) = engine_call E w5 (Destroy_result (out_handle d))
                                           in (make_error
                                                 (case message e of
                                                    Some error_msg \<Rightarrow> error_msg
                                                  | None \<Rightarrow> ''Failed to execute prepared statement''),
                                               w6))
                                     else (make_ok (Resource (next_resource w3)),
                                           w3\<lparr>resources := (resources w3)
                                                 (next_resource w3 \<mapsto> ResultResource (out_handle x)),
                                               next_resource := Suc (next_resource w3)\<rparr>)))
                | _ \<Rightarrow> (Badarg, w)))"

text \<open>The engine calls that bind a parameter.\<close>

fun is_bind :: "engine_call \<Rightarrow> bool" where
  "is_bind (Bind_null s i) = True"
| "is_bind (Bind_boolean s i b) = True"
| "is_bind (Bind_int64 s i v) = True"
| "is_bind (Bind_double s i d) = True"
| "is_bind (Bind_varchar s i t) = True"
| "is_bind _ = False"

section \<open>Sample inputs\<close>

text \<open>
  A table of the platform's functions at the inputs the examples below use (5.0, 10.0,
  15.0 and 150.0 as doubles, the quiet NaN and the infinities), and a fixed value
  elsewhere.
\<close>

definition example_platform :: platform where
  "example_platform =
     \<lparr>type_number = (\<lambda>t. case t of DUCKDB_TYPE_UNION \<Rightarrow> 28 | DUCKDB_TYPE_OTHER n \<Rightarrow> n | _ \<Rightarrow> 0),
      duckdb_from_date = (\<lambda>d. \<lparr>year = 1970, month = 1, day = 1\<rparr>),
      duckdb_from_time = (\<lambda>t. \<lparr>hour = 0, minute = 0, sec = 0, time_micros = 0\<rparr>),
      duckdb_from_timestamp =
        (\<lambda>t. (\<lparr>year = 1970, month = 1, day = 1\<rparr>,
              \<lparr>hour = 0, minute = 0, sec = 0, time_micros = 0\<rparr>)),
      duckdb_from_time_tz = (\<lambda>t. (\<lparr>hour = 0, minute = 0, sec = 0, time_micros = 0\<rparr>, 0)),
      duckdb_decimal_to_double =
        (\<lambda>w s h. if lower h = 5 \<and> upper h = 0 \<and> s = 0 then 0x4014000000000000 else 0),
      printf_g10 = (\<lambda>d. if d = 0x4014000000000000 then ''5'' else ''0''),
      float_to_double = (\<lambda>f. if f = 0x7FC00000 then 0x7FF8000000000000 else 0),
      int64_to_double = (\<lambda>i. if i = 150 then 0x4062C00000000000 else 0),
      double_mul = (\<lambda>a b. if a = 0x3FF0000000000000 \<and> b = 0x4024000000000000
                            then 0x4024000000000000 else 0),
      double_div = (\<lambda>a b. if a = 0x4062C00000000000 \<and> b = 0x4024000000000000
                            then 0x402E000000000000 else 0),
      strtof = (\<lambda>s. if s = ''nan'' then 0x7FC00000
                     else if s = ''inf'' then 0x7F800000
                     else if s = ''-inf'' then 0xFF800000 else 0),
      strtod = (\<lambda>s. if s = ''nan'' then 0x7FF8000000000000
                     else if s = ''inf'' then 0x7FF0000000000000
                     else if s = ''-inf'' then 0xFFF0000000000000 else 0)\<rparr>"

text \<open>A data array that reads as zero at every type.\<close>

definition zero_data :: vdata where
  "zero_data =
     \<lparr>bool_data = (\<lambda>i. False), int8_data = (\<lambda>i. 0), int16_data = (\<lambda>i. 0),
      int32_data = (\<lambda>i. 0), int64_data = (\<lambda>i. 0),
      hugeint_data = (\<lambda>i. \<lparr>lower = 0, upper = 0\<rparr>),
      float_data = (\<lambda>i. 0), double_data = (\<lambda>i. 0), string_data = (\<lambda>i. []),
      list_data = (\<lambda>i. \<lparr>offset = 0, length' = 0\<rparr>),
      interval_data = (\<lambda>i. \<lparr>months = 0, days = 0, micros = 0\<rparr>)\<rparr>"

text \<open>A result of one row whose cells are not null and all have the same text.\<close>

definition text_result :: "duckdb_type list \<Rightarrow> string \<Rightarrow> duckdb_result" where
  "text_result types str =
     \<lparr>duckdb_column_count = size types, duckdb_row_count = 1,
      duckdb_column_type = (\<lambda>c. types ! c),
      duckdb_value_is_null = (\<lambda>c r. False),
      duckdb_value_varchar = (\<lambda>c r. Some str),
      duckdb_value_blob = (\<lambda>c r. None)\<rparr>"

text \<open>A vector with a data array, no validity mask and no children.\<close>

definition flat_vector :: "vdata \<Rightarrow> duckdb_vector" where
  "flat_vector data = Vector (Some data) None []"

text \<open>
  A \<open>MAP(VARCHAR, INTEGER)\<close> vector of one row: the entries have the given keys, in
  order, and the values 1, 2, ...
\<close>

definition example_map_data :: "string list \<Rightarrow> vdata" where
  "example_map_data ks = zero_data\<lparr>list_data := (\<lambda>i. \<lparr>offset = 0, length' = of_nat (size ks)\<rparr>)\<rparr>"

definition example_map_vector :: "string list \<Rightarrow> duckdb_vector" where
  "example_map_vector ks =
     Vector (Some (example_map_data ks)) None
       [Vector None None
          [flat_vector (zero_data\<lparr>string_data := (\<lambda>i. ks ! i)\<rparr>),
           flat_vector (zero_data\<lparr>int32_data := (\<lambda>i. of_nat (Suc i))\<rparr>)]]"

text \<open>An enum dictionary of three strings.\<close>

definition example_dictionary :: "32 word \<Rightarrow> string option" where
  "example_dictionary i =
     (if i = 0 then Some ''sad'' else if i = 1 then Some ''ok''
      else if i = 2 then Some ''happy'' else None)"

text \<open>
  An engine for the examples. As the engine's C interface does, it answers
  \<open>duckdb_appender_destroy\<close> on a null handle with \<open>DuckDBError\<close>, and on a handle
  that is not null it releases the appender and nulls the handle. Its statements have
  two parameters, its results have the handle 7, and every other call succeeds.
\<close>

definition example_engine :: engine where
  "example_engine past c =
     (case c of
        Appender_destroy None \<Rightarrow>
          \<lparr>status = DuckDBError, out_handle = None, message = None, number = 0\<rparr>
      | Nparams stmt \<Rightarrow>
          \<lparr>status = DuckDBSuccess, out_handle = None, message = None, number = 2\<rparr>
      | Execute_prepared stmt \<Rightarrow>
          \<lparr>status = DuckDBSuccess, out_handle = Some 7, message = None, number = 0\<rparr>
      | _ \<Rightarrow> \<lparr>status = DuckDBSuccess, out_handle = None, message = None, number = 0\<rparr>)"

text \<open>A world with an appender as resource 0 and a prepared statement as resource 1.\<close>

definition example_world :: world where
  "example_world =
     \<lparr>history = [],
      resources = (\<lambda>n. if n = 0 then Some (AppenderResource (Some 1))
                       else if n = 1 then Some (PreparedStatementResource (Some 2))
                       else None),
      next_resource = 2\<rparr>"

section \<open>Decimal text is read back exactly\<close>

lemma below_ten: "(d::nat) < 10 \<Longrightarrow> d \<in> {0, 1, 2, 3, 4, 5, 6, 7, 8, 9}"
  by auto

lemma digit_val_digit_char: "d < 10 \<Longrightarrow> digit_val (digit_char d) = Some d"
  using below_ten [of d] unfolding digit_char_def digit_val_def by auto

lemma isdigit_digit_char: "isdigit (digit_char d)"
proof -
  have "digit_val (digit_char (d mod 10)) = Some (d mod 10)"
    by (rule digit_val_digit_char) simp
  moreover have "digit_char (d mod 10) = digit_char d" by (simp add: digit_char_def)
  ultimately show ?thesis by (simp add: isdigit_def)
qed

lemma show_nat_digits: "list_all isdigit (show_nat n)"
proof (induction n rule: show_nat.induct)
  case (1 n)
  show ?case
  proof (cases "n < 10")
    case True
    then show ?thesis by (subst show_nat.simps) (simp add: isdigit_digit_char)
  next
    case False
    with 1 show ?thesis by (subst show_nat.simps) (simp add: isdigit_digit_char)
  qed
qed

lemma show_nat_nonempty: "show_nat n \<noteq> []"
  by (subst show_nat.simps) simp

lemma digits_value_snoc: "digits_value (ds @ [c]) = digits_value ds * 10 + the (digit_val c)"
  by (simp add: digits_value_def)

lemma digits_value_show_nat: "digits_value (show_nat n) = n"
proof (induction n rule: show_nat.induct)
  case (1 n)
  show ?case
  proof (cases "n < 10")
    case True
    then have "the (digit_val (digit_char n)) = n" using digit_val_digit_char by simp
    with True show ?thesis by (subst show_nat.simps) (simp add: digits_value_def)
  next
    case False
    have "n mod 10 < 10" by simp
    then have "the (digit_val (digit_char (n mod 10))) = n mod 10"
      using digit_val_digit_char by simp
    with False 1 show ?thesis
      by (subst show_nat.simps) (simp add: digits_value_snoc)
  qed
qed

lemma isdigit_not_special:
  "isdigit c \<Longrightarrow> \<not> isspace c \<and> c \<noteq> CHR ''-'' \<and> c \<noteq> CHR ''+''"
  unfolding isdigit_def isspace_def digit_val_def by (auto split: if_splits)

lemma hd_show_nat: "isdigit (hd (show_nat n))"
  using show_nat_digits [of n] show_nat_nonempty [of n]
  by (cases "show_nat n") simp_all

lemma takeWhile_all: "list_all P xs \<Longrightarrow> takeWhile P xs = xs"
  by (induction xs) simp_all

lemma dropWhile_all: "list_all P xs \<Longrightarrow> dropWhile P xs = []"
  by (induction xs) simp_all

lemma dropWhile_hd: "xs \<noteq> [] \<Longrightarrow> \<not> P (hd xs) \<Longrightarrow> dropWhile P xs = xs"
  by (cases xs) simp_all

lemma strtoll_show_int:
  "strtoll (show_int v) = (max LLONG_MIN (min LLONG_MAX v), [])"
proof (cases "v < 0")
  case True
  let ?s = "show_nat (nat (- v))"
  have a: "show_int v = CHR ''-'' # ?s" using True by (simp add: show_int_def)
  have b: "\<not> isspace (CHR ''-'')" by (simp add: isspace_def)
  have c: "takeWhile isdigit ?s = ?s" "dropWhile isdigit ?s = []"
    using show_nat_digits by (simp_all add: takeWhile_all dropWhile_all)
  show ?thesis using True
    by (simp add: a strtoll_def b c show_nat_nonempty digits_value_show_nat Let_def)
next
  case False
  let ?s = "show_nat (nat v)"
  have a: "show_int v = ?s" using False by (simp add: show_int_def)
  have h: "\<not> isspace (hd ?s)" "hd ?s \<noteq> CHR ''-''" "hd ?s \<noteq> CHR ''+''"
    using isdigit_not_special [OF hd_show_nat] by blast+
  have d: "dropWhile isspace ?s = ?s"
    by (simp add: dropWhile_hd show_nat_nonempty h(1))
  have c: "takeWhile isdigit ?s = ?s" "dropWhile isdigit ?s = []"
    using show_nat_digits by (simp_all add: takeWhile_all dropWhile_all)
  show ?thesis using False
    by (simp add: a strtoll_def d h c show_nat_nonempty digits_value_show_nat Let_def)
qed

lemma hugeint_row_text:
  "hugeint_to_elixir_integer_via_varchar (Some (show_int v)) =
     (if LLONG_MIN < v \<and> v < LLONG_MAX then Integer v else Binary (show_int v))"
  by (auto simp: hugeint_to_elixir_integer_via_varchar_def strtoll_show_int
      LLONG_MIN_def LLONG_MAX_def)

lemma is_decimal_show_int: "is_decimal_string (show_int v)"
proof (cases "v < 0")
  case True
  then show ?thesis
    by (simp add: is_decimal_string_def show_int_def show_nat_nonempty show_nat_digits)
next
  case False
  obtain c cs where e: "show_nat (nat v) = c # cs"
    using show_nat_nonempty [of "nat v"] by (cases "show_nat (nat v)") auto
  have "isdigit c" using hd_show_nat [of "nat v"] e by simp
  then have "c \<noteq> CHR ''-''" using isdigit_not_special by blast
  moreover have "list_all isdigit (c # cs)" using show_nat_digits [of "nat v"] e by simp
  ultimately show ?thesis using False e
    by (simp add: is_decimal_string_def show_int_def)
qed

lemma decimal_value_show_int: "decimal_value (show_int v) = v"
proof (cases "v < 0")
  case True
  then show ?thesis
    by (simp add: decimal_value_def show_int_def digits_value_show_nat)
next
  case False
  obtain c cs where e: "show_nat (nat v) = c # cs"
    using show_nat_nonempty [of "nat v"] by (cases "show_nat (nat v)") auto
  have "isdigit c" using hd_show_nat [of "nat v"] e by simp
  then have "c \<noteq> CHR ''-''" using isdigit_not_special by blast
  moreover have "digits_value (c # cs) = nat v" using digits_value_show_nat [of "nat v"] e by simp
  ultimately show ?thesis using False e
    by (simp add: decimal_value_def show_int_def)
qed

section \<open>The 64-bit range of a hugeint\<close>

lemma mod_once:
  fixes x m :: int
  assumes "m \<le> x" "x < 2 * m"
  shows "x mod m = x - m"
proof -
  have "(x - m + m) mod m = (x - m) mod m" by (rule mod_add_self2)
  moreover have "(x - m) mod m = x - m" using assms by (intro mod_pos_pos_trivial) simp_all
  ultimately show ?thesis by simp
qed

lemma sint64_cases:
  fixes w :: "64 word"
  shows "sint w = (if uint w < 2 ^ 63 then uint w else uint w - 2 ^ 64)"
proof -
  have b: "0 \<le> uint w" "uint w < 2 ^ 64" using uint_lt2p [of w] by simp_all
  have s: "sint w = signed_take_bit 63 (uint w)"
    by (simp add: sint_uint)
  show ?thesis
  proof (cases "uint w < 2 ^ 63")
    case True
    have "- (2 ^ 63) \<le> uint w" by (rule order_trans [of _ 0]) simp_all
    with True have "signed_take_bit 63 (uint w) = uint w"
      by (intro signed_take_bit_int_eq_self)
    with True s show ?thesis by simp
  next
    case False
    have "signed_take_bit 63 (uint w) = (uint w + 2 ^ 63) mod 2 ^ 64 - 2 ^ 63"
      by (simp add: signed_take_bit_eq_take_bit_shift take_bit_eq_mod)
    moreover have "(uint w + 2 ^ 63) mod 2 ^ 64 = uint w + 2 ^ 63 - 2 ^ 64"
      using False b by (intro mod_once) simp_all
    ultimately show ?thesis using False s by simp
  qed
qed

lemma sint64_zero_iff: "sint (w :: 64 word) = 0 \<longleftrightarrow> w = 0"
  by (rule signed_eq_0_iff)

lemma sint64_m1_iff: "sint (w :: 64 word) = - 1 \<longleftrightarrow> w = - 1"
  using word_eq_iff_signed [where 'a = int, of w "- 1"] by simp

lemma le_const: "(w :: 64 word) \<le> 9223372036854775807 \<longleftrightarrow> uint w < 2 ^ 63"
  by (auto simp: word_le_def)

lemma ge_const: "(w :: 64 word) \<ge> 9223372036854775808 \<longleftrightarrow> uint w \<ge> 2 ^ 63"
  by (auto simp: word_le_def)

lemma extract_hugeint_small:
  assumes "LLONG_MIN \<le> hugeint_value h" "hugeint_value h \<le> LLONG_MAX"
  shows "extract_hugeint h = Integer (hugeint_value h)"
proof -
  let ?u = "sint (upper h)" and ?l = "uint (lower h)"
  have l: "0 \<le> ?l" "?l < 18446744073709551616" using uint_lt2p [of "lower h"] by simp_all
  have v: "hugeint_value h = ?u * 18446744073709551616 + ?l" by (simp add: hugeint_value_def)
  have "?u = 0 \<or> ?u = - 1"
  proof (rule ccontr)
    assume "\<not> (?u = 0 \<or> ?u = - 1)"
    then have "?u \<ge> 1 \<or> ?u \<le> - 2" by arith
    then show False using assms l v unfolding LLONG_MIN_def LLONG_MAX_def by linarith
  qed
  then show ?thesis
  proof
    assume u: "?u = 0"
    then have "?l < 2 ^ 63" using assms v by (simp add: LLONG_MAX_def)
    then show ?thesis using u v
      by (simp add: extract_hugeint_def sint64_zero_iff [symmetric] le_const sint64_cases)
  next
    assume u: "?u = - 1"
    then have g: "?l \<ge> 2 ^ 63" using assms v by (simp add: LLONG_MIN_def)
    have "upper h \<noteq> 0" using u sint64_zero_iff [of "upper h"] by simp
    then show ?thesis using u v g
      by (simp add: extract_hugeint_def sint64_m1_iff [symmetric] ge_const sint64_cases)
  qed
qed

lemma extract_hugeint_large:
  assumes "hugeint_value h < LLONG_MIN \<or> LLONG_MAX < hugeint_value h"
  shows "extract_hugeint h =
    Binary (''hugeint:'' @ show_int (sint (upper h)) @ '':'' @ show_nat (unat (lower h)))"
proof -
  let ?u = "sint (upper h)" and ?l = "uint (lower h)"
  have l: "0 \<le> ?l" "?l < 18446744073709551616" using uint_lt2p [of "lower h"] by simp_all
  have v: "hugeint_value h = ?u * 18446744073709551616 + ?l" by (simp add: hugeint_value_def)
  have a: "\<not> (upper h = 0 \<and> lower h \<le> 9223372036854775807)"
  proof
    assume "upper h = 0 \<and> lower h \<le> 9223372036854775807"
    then have "?u = 0" "?l < 9223372036854775808" by (simp_all add: le_const)
    then show False using assms v l unfolding LLONG_MIN_def LLONG_MAX_def by linarith
  qed
  have b: "\<not> (upper h = - 1 \<and> lower h \<ge> 9223372036854775808)"
  proof
    assume "upper h = - 1 \<and> lower h \<ge> 9223372036854775808"
    then have "?u = - 1" "?l \<ge> 9223372036854775808" by (simp_all add: ge_const)
    then show False using assms v l unfolding LLONG_MIN_def LLONG_MAX_def by linarith
  qed
  show ?thesis using a b by (simp add: extract_hugeint_def)
qed

section \<open>Hugeint extraction\<close>

lemma extract_vector_hugeint:
  assumes "\<not> cell_is_null vector LT_HUGEINT row_idx" "duckdb_vector_get_data vector = Some data"
  shows "extract_vector_value X vector LT_HUGEINT row_idx = extract_hugeint (hugeint_data data row_idx)"
  using assms by simp

lemma extract_row_hugeint:
  assumes "duckdb_column_type res c = DUCKDB_TYPE_HUGEINT" "\<not> duckdb_value_is_null res c r"
  shows "extract_row_value X res c r =
         hugeint_to_elixir_integer_via_varchar (duckdb_value_varchar res c r)"
  using assms by (simp add: extract_row_value_def)

text \<open>
  C1 (amended). A hugeint cell that is not null. On the row-oriented path, where the
  engine's text of the cell is the decimal text of \<open>v\<close>: the result is the integer
  \<open>v\<close> when \<open>-2^63 < v < 2^63 - 1\<close>, and when \<open>v\<close> is beyond the 64-bit range
  (\<open>v < -2^63\<close> or \<open>2^63 - 1 < v\<close>) it is the decimal text of \<open>v\<close>, a decimal-digit
  string that reads back as \<open>v\<close>. On the vector path: the result is the integer \<open>v\<close>
  when \<open>-2^63 \<le> v \<le> 2^63 - 1\<close>, and otherwise the text \<open>hugeint:U:L\<close> of the signed
  high word \<open>U\<close> and the unsigned low word \<open>L\<close>, with \<open>v = U * 2^64 + L\<close>.
\<close>

theorem hugeint_extraction:
  "(duckdb_column_type res c = DUCKDB_TYPE_HUGEINT \<and> \<not> duckdb_value_is_null res c r \<and>
    duckdb_value_varchar res c r = Some (show_int v)
    \<longrightarrow> (LLONG_MIN < v \<and> v < LLONG_MAX \<longrightarrow> extract_row_value X res c r = Integer v) \<and>
        (v < LLONG_MIN \<or> LLONG_MAX < v
          \<longrightarrow> extract_row_value X res c r = Binary (show_int v) \<and>
              is_decimal_string (show_int v) \<and> decimal_value (show_int v) = v)) \<and>
   (\<not> cell_is_null vector LT_HUGEINT row_idx \<and> duckdb_vector_get_data vector = Some data \<and>
    h = hugeint_data data row_idx
    \<longrightarrow> extract_vector_value X vector LT_HUGEINT row_idx =
          (if LLONG_MIN \<le> hugeint_value h \<and> hugeint_value h \<le> LLONG_MAX
           then Integer (hugeint_value h)
           else Binary (''hugeint:'' @ show_int (sint (upper h)) @ '':'' @
                        show_nat (unat (lower h)))))"
proof (intro conjI impI)
  assume a: "duckdb_column_type res c = DUCKDB_TYPE_HUGEINT \<and> \<not> duckdb_value_is_null res c r \<and>
    duckdb_value_varchar res c r = Some (show_int v)"
  then have e: "extract_row_value X res c r =
          (if LLONG_MIN < v \<and> v < LLONG_MAX then Integer v else Binary (show_int v))"
    using extract_row_hugeint [of res c r X] hugeint_row_text [of v] by simp
  {
    assume "LLONG_MIN < v \<and> v < LLONG_MAX"
    then show "extract_row_value X res c r = Integer v" using e by simp
  }
  {
    assume "v < LLONG_MIN \<or> LLONG_MAX < v"
    then show "extract_row_value X res c r = Binary (show_int v)" using e by auto
    show "is_decimal_string (show_int v)" by (rule is_decimal_show_int)
    show "decimal_value (show_int v) = v" by (rule decimal_value_show_int)
  }
next
  assume b: "\<not> cell_is_null vector LT_HUGEINT row_idx \<and> duckdb_vector_get_data vector = Some data \<and>
    h = hugeint_data data row_idx"
  then have e: "extract_vector_value X vector LT_HUGEINT row_idx = extract_hugeint h"
    using extract_vector_hugeint by simp
  show "extract_vector_value X vector LT_HUGEINT row_idx =
          (if LLONG_MIN \<le> hugeint_value h \<and> hugeint_value h \<le> LLONG_MAX
           then Integer (hugeint_value h)
           else Binary (''hugeint:'' @ show_int (sint (upper h)) @ '':'' @
                        show_nat (unat (lower h))))"
  proof (cases "LLONG_MIN \<le> hugeint_value h \<and> hugeint_value h \<le> LLONG_MAX")
    case True
    then show ?thesis using e extract_hugeint_small [of h] by simp
  next
    case False
    then have "hugeint_value h < LLONG_MIN \<or> LLONG_MAX < hugeint_value h" by auto
    then show ?thesis using e False extract_hugeint_large [of h] by simp
  qed
qed

lemma show_int_ex2: "show_int 42 = ''42''"
  by (simp add: show_int_def show_nat.simps digit_char_def)

lemma show_int_ex3: "show_int 9223372036854775808 = ''9223372036854775808''"
  by (simp add: show_int_def show_nat.simps digit_char_def)

theorem hugeint_extraction_witness:
  "extract_row_value example_platform (text_result [DUCKDB_TYPE_HUGEINT] ''42'') 0 0 = Integer 42 \<and>
   extract_row_value example_platform
     (text_result [DUCKDB_TYPE_HUGEINT] ''9223372036854775808'') 0 0
     = Binary ''9223372036854775808'' \<and>
   decimal_value ''9223372036854775808'' = 9223372036854775808 \<and>
   extract_vector_value example_platform
     (Vector (Some (zero_data\<lparr>hugeint_data := (\<lambda>i. \<lparr>lower = 7, upper = 0\<rparr>)\<rparr>)) None [])
     LT_HUGEINT 0 = Integer 7"
proof -
  let ?vector = "Vector (Some (zero_data\<lparr>hugeint_data := (\<lambda>i. \<lparr>lower = 7, upper = 0\<rparr>)\<rparr>)) None []"
  let ?data = "zero_data\<lparr>hugeint_data := (\<lambda>i. \<lparr>lower = 7, upper = 0\<rparr>)\<rparr>"
  have a: "extract_row_value example_platform (text_result [DUCKDB_TYPE_HUGEINT] ''42'') 0 0
             = Integer 42 \<and>
           extract_vector_value example_platform ?vector LT_HUGEINT 0 = Integer 7"
    using hugeint_extraction [where res = "text_result [DUCKDB_TYPE_HUGEINT] ''42''" and c = 0
        and r = 0 and v = 42 and X = example_platform and row_idx = 0
        and vector = ?vector and data = ?data and h = "\<lparr>lower = 7, upper = 0\<rparr>"]
    by (simp add: text_result_def show_int_ex2 cell_is_null_def is_complex_type_def
        hugeint_value_def LLONG_MIN_def LLONG_MAX_def)
  have b: "extract_row_value example_platform
             (text_result [DUCKDB_TYPE_HUGEINT] ''9223372036854775808'') 0 0
             = Binary ''9223372036854775808'' \<and>
           decimal_value ''9223372036854775808'' = 9223372036854775808"
    using hugeint_extraction [where res = "text_result [DUCKDB_TYPE_HUGEINT] ''9223372036854775808''"
        and c = 0 and r = 0 and v = 9223372036854775808 and X = example_platform and row_idx = 0
        and vector = ?vector and data = ?data and h = "\<lparr>lower = 7, upper = 0\<rparr>"]
    by (simp add: text_result_def show_int_ex3 LLONG_MIN_def LLONG_MAX_def)
  show ?thesis using a b by simp
qed

text \<open>
  The claim as stated fails on the vector path at \<open>2^63\<close>: the result is the text of
  the two words, which is not a decimal-digit string.
\<close>

theorem hugeint_extraction_counterexample:
  "extract_vector_value example_platform
     (Vector (Some (zero_data\<lparr>hugeint_data := (\<lambda>i. \<lparr>lower = 9223372036854775808, upper = 0\<rparr>)\<rparr>))
        None [])
     LT_HUGEINT 0 = Binary ''hugeint:0:9223372036854775808'' \<and>
   \<not> is_decimal_string ''hugeint:0:9223372036854775808''"
  by (simp add: cell_is_null_def is_complex_type_def extract_hugeint_def show_int_def
      show_nat.simps digit_char_def is_decimal_string_def isdigit_def digit_val_def)

section \<open>The UUID workaround of the row-oriented path\<close>

lemma has_uuid_iff:
  "has_uuid res \<longleftrightarrow> (\<exists>c < duckdb_column_count res. duckdb_column_type res c = DUCKDB_TYPE_UUID)"
  by (auto simp: has_uuid_def list_ex_iff)

lemma result_row_all_nil:
  assumes "c < duckdb_column_count res" "duckdb_column_type res c = DUCKDB_TYPE_UUID"
    "1 < duckdb_column_count res"
  shows "result_row X res r = Tuple (replicate (duckdb_column_count res) atom_nil)"
proof -
  have "has_uuid res" using assms(1,2) has_uuid_iff by blast
  then show ?thesis using assms(3) by (simp add: result_row_def map_replicate_const)
qed

lemma result_row_single:
  assumes "duckdb_column_count res = 1"
  shows "result_row X res r = Tuple [extract_row_value X res 0 r]"
  using assms by (simp add: result_row_def)

lemma extract_row_uuid:
  assumes "duckdb_column_type res c = DUCKDB_TYPE_UUID"
  shows "extract_row_value X res c r =
         (if duckdb_value_is_null res c r then atom_nil
          else varchar_binary_or (duckdb_value_varchar res c r) atom_nil)"
  using assms by (simp add: extract_row_value_def)

text \<open>
  C2. The rows of \<open>result_rows_nif\<close>. When some column is UUID-typed and the result
  has more than one column, every row is the tuple of as many \<open>nil\<close> as there are
  columns. When the result has exactly one column and it is UUID-typed, every row holds
  the one extracted cell: a cell that is not null yields the engine's text of the UUID
  as a binary (a UUID's text is neither empty nor \<open>NULL\<close>), a null cell yields
  \<open>nil\<close>.
\<close>

theorem uuid_rows:
  "(c < duckdb_column_count res \<and> duckdb_column_type res c = DUCKDB_TYPE_UUID \<and>
    1 < duckdb_column_count res
    \<longrightarrow> result_rows X res =
          List (replicate (duckdb_row_count res)
                  (Tuple (replicate (duckdb_column_count res) atom_nil)))) \<and>
   (duckdb_column_count res = 1 \<and> duckdb_column_type res 0 = DUCKDB_TYPE_UUID
    \<longrightarrow> result_rows X res =
          List (map (\<lambda>r. Tuple [extract_row_value X res 0 r]) [0..<duckdb_row_count res]) \<and>
        (\<forall>r s. \<not> duckdb_value_is_null res 0 r \<and> duckdb_value_varchar res 0 r = Some s \<and>
               s \<noteq> [] \<and> s \<noteq> ''NULL''
               \<longrightarrow> extract_row_value X res 0 r = Binary s) \<and>
        (\<forall>r. duckdb_value_is_null res 0 r \<longrightarrow> extract_row_value X res 0 r = atom_nil))"
proof (intro conjI impI allI)
  assume "c < duckdb_column_count res \<and> duckdb_column_type res c = DUCKDB_TYPE_UUID \<and>
    1 < duckdb_column_count res"
  then have "result_row X res = (\<lambda>r. Tuple (replicate (duckdb_column_count res) atom_nil))"
    using result_row_all_nil [of c res X] by auto
  then show "result_rows X res =
          List (replicate (duckdb_row_count res)
                  (Tuple (replicate (duckdb_column_count res) atom_nil)))"
    by (simp add: result_rows_def map_replicate_const)
next
  assume "duckdb_column_count res = 1 \<and> duckdb_column_type res 0 = DUCKDB_TYPE_UUID"
  then have "result_row X res = (\<lambda>r. Tuple [extract_row_value X res 0 r])"
    using result_row_single [of res X] by auto
  then show "result_rows X res =
          List (map (\<lambda>r. Tuple [extract_row_value X res 0 r]) [0..<duckdb_row_count res])"
    by (simp add: result_rows_def)
next
  fix r s
  assume "duckdb_column_count res = 1 \<and> duckdb_column_type res 0 = DUCKDB_TYPE_UUID"
    and "\<not> duckdb_value_is_null res 0 r \<and> duckdb_value_varchar res 0 r = Some s \<and>
               s \<noteq> [] \<and> s \<noteq> ''NULL''"
  then show "extract_row_value X res 0 r = Binary s"
    using extract_row_uuid [of res 0 X r] by (simp add: varchar_binary_or_def)
next
  fix r
  assume "duckdb_column_count res = 1 \<and> duckdb_column_type res 0 = DUCKDB_TYPE_UUID"
    and "duckdb_value_is_null res 0 r"
  then show "extract_row_value X res 0 r = atom_nil"
    using extract_row_uuid [of res 0 X r] by simp
qed

theorem uuid_rows_witness:
  "result_rows example_platform
     (text_result [DUCKDB_TYPE_UUID, DUCKDB_TYPE_INTEGER, DUCKDB_TYPE_VARCHAR] ''7'')
     = List [Tuple [atom_nil, atom_nil, atom_nil]] \<and>
   result_rows example_platform
     (text_result [DUCKDB_TYPE_UUID] ''550e8400-e29b-41d4-a716-446655440000'')
     = List [Tuple [Binary ''550e8400-e29b-41d4-a716-446655440000'']]"
proof -
  let ?many = "text_result [DUCKDB_TYPE_UUID, DUCKDB_TYPE_INTEGER, DUCKDB_TYPE_VARCHAR] ''7''"
  let ?one = "text_result [DUCKDB_TYPE_UUID] ''550e8400-e29b-41d4-a716-446655440000''"
  have a: "result_rows example_platform ?many = List [Tuple [atom_nil, atom_nil, atom_nil]]"
    using uuid_rows [where res = ?many and c = 0 and X = example_platform]
    by (simp add: text_result_def numeral_3_eq_3)
  have b: "result_rows example_platform ?one =
           List [Tuple [extract_row_value example_platform ?one 0 0]] \<and>
           extract_row_value example_platform ?one 0 0 =
           Binary ''550e8400-e29b-41d4-a716-446655440000''"
    using uuid_rows [where res = ?one and c = 0 and X = example_platform]
    by (simp add: text_result_def)
  show ?thesis using a b by simp
qed

section \<open>Enum extraction\<close>

lemma flat_vector_not_null: "\<not> cell_is_null (flat_vector data) logical_type row_idx"
  by (simp add: cell_is_null_def flat_vector_def)

lemma flat_vector_data: "duckdb_vector_get_data (flat_vector data) = Some data"
  by (simp add: flat_vector_def)

lemma extract_vector_enum:
  assumes "\<not> cell_is_null vector (LT_ENUM internal_type dict_size dictionary_value) row_idx"
    "duckdb_vector_get_data vector = Some data"
  shows "extract_vector_value X vector (LT_ENUM internal_type dict_size dictionary_value) row_idx =
         extract_enum data internal_type dict_size dictionary_value row_idx"
  using assms by simp

text \<open>
  C9. An enum cell that is not null, stored as an unsigned 8-, 16- or 32-bit index (the
  internal types of an enum). When the index is below the dictionary size, the result
  is the dictionary string the engine returns for that index; when the index is at or
  beyond the dictionary size, the dictionary is not read and the result is the atom
  \<open>invalid_enum_value\<close>.
\<close>

theorem enum_extraction:
  "\<not> cell_is_null vector (LT_ENUM internal_type dict_size dictionary_value) row_idx \<and>
   duckdb_vector_get_data vector = Some data \<and>
   (internal_type = DUCKDB_TYPE_UTINYINT \<and> enum_index = ucast (int8_data data row_idx) \<or>
    internal_type = DUCKDB_TYPE_USMALLINT \<and> enum_index = ucast (int16_data data row_idx) \<or>
    internal_type = DUCKDB_TYPE_UINTEGER \<and> enum_index = int32_data data row_idx)
   \<longrightarrow> (enum_index < dict_size \<and> dictionary_value enum_index = Some enum_string
         \<longrightarrow> extract_vector_value X vector (LT_ENUM internal_type dict_size dictionary_value) row_idx
             = Binary enum_string) \<and>
       (dict_size \<le> enum_index
         \<longrightarrow> extract_vector_value X vector (LT_ENUM internal_type dict_size dictionary_value) row_idx
             = Atom ''invalid_enum_value'')"
proof (intro impI)
  assume a: "\<not> cell_is_null vector (LT_ENUM internal_type dict_size dictionary_value) row_idx \<and>
   duckdb_vector_get_data vector = Some data \<and>
   (internal_type = DUCKDB_TYPE_UTINYINT \<and> enum_index = ucast (int8_data data row_idx) \<or>
    internal_type = DUCKDB_TYPE_USMALLINT \<and> enum_index = ucast (int16_data data row_idx) \<or>
    internal_type = DUCKDB_TYPE_UINTEGER \<and> enum_index = int32_data data row_idx)"
  then have e: "extract_vector_value X vector (LT_ENUM internal_type dict_size dictionary_value) row_idx =
         extract_enum data internal_type dict_size dictionary_value row_idx"
    using extract_vector_enum by blast
  have s: "extract_enum data internal_type dict_size dictionary_value row_idx =
        (if enum_index < dict_size
           then (case dictionary_value enum_index of
                   Some enum_string \<Rightarrow> Binary enum_string
                 | None \<Rightarrow> Atom ''invalid_enum_value'')
           else Atom ''invalid_enum_value'')"
    using a by (auto simp: extract_enum_def)
  show "(enum_index < dict_size \<and> dictionary_value enum_index = Some enum_string
         \<longrightarrow> extract_vector_value X vector (LT_ENUM internal_type dict_size dictionary_value) row_idx
             = Binary enum_string) \<and>
       (dict_size \<le> enum_index
         \<longrightarrow> extract_vector_value X vector (LT_ENUM internal_type dict_size dictionary_value) row_idx
             = Atom ''invalid_enum_value'')"
    using e s by auto
qed

theorem enum_extraction_witness:
  "extract_vector_value example_platform (flat_vector (zero_data\<lparr>int8_data := (\<lambda>i. 1)\<rparr>))
     (LT_ENUM DUCKDB_TYPE_UTINYINT 3 example_dictionary) 0 = Binary ''ok'' \<and>
   extract_vector_value example_platform (flat_vector (zero_data\<lparr>int8_data := (\<lambda>i. 200)\<rparr>))
     (LT_ENUM DUCKDB_TYPE_UTINYINT 3 example_dictionary) 0 = Atom ''invalid_enum_value''"
proof -
  have a: "extract_vector_value example_platform (flat_vector (zero_data\<lparr>int8_data := (\<lambda>i. 1)\<rparr>))
     (LT_ENUM DUCKDB_TYPE_UTINYINT 3 example_dictionary) 0 = Binary ''ok''"
    using enum_extraction [where vector = "flat_vector (zero_data\<lparr>int8_data := (\<lambda>i. 1)\<rparr>)"
        and data = "zero_data\<lparr>int8_data := (\<lambda>i. 1)\<rparr>" and internal_type = DUCKDB_TYPE_UTINYINT
        and dict_size = 3 and dictionary_value = example_dictionary and row_idx = 0
        and enum_index = 1 and enum_string = "''ok''" and X = example_platform]
    by (simp add: flat_vector_not_null flat_vector_data example_dictionary_def)
  have b: "extract_vector_value example_platform (flat_vector (zero_data\<lparr>int8_data := (\<lambda>i. 200)\<rparr>))
     (LT_ENUM DUCKDB_TYPE_UTINYINT 3 example_dictionary) 0 = Atom ''invalid_enum_value''"
    using enum_extraction [where vector = "flat_vector (zero_data\<lparr>int8_data := (\<lambda>i. 200)\<rparr>)"
        and data = "zero_data\<lparr>int8_data := (\<lambda>i. 200)\<rparr>" and internal_type = DUCKDB_TYPE_UTINYINT
        and dict_size = 3 and dictionary_value = example_dictionary and row_idx = 0
        and enum_index = 200 and X = example_platform]
    by (simp add: flat_vector_not_null flat_vector_data)
  show ?thesis using a b by simp
qed

section \<open>Map extraction\<close>

lemma extract_vector_map:
  assumes "\<not> cell_is_null vector (LT_MAP key_type value_type) row_idx"
    "duckdb_vector_get_data vector = Some data"
  shows "extract_vector_value X vector (LT_MAP key_type value_type) row_idx =
     (let entry = list_data data row_idx;
          child_vector = duckdb_list_vector_get_child vector;
          keys = map (\<lambda>i. extract_vector_value X (duckdb_struct_vector_get_child child_vector 0)
                              key_type (unat (offset entry) + i))
                     [0..<unat (length' entry)];
          vals = map (\<lambda>i. extract_vector_value X (duckdb_struct_vector_get_child child_vector 1)
                              value_type (unat (offset entry) + i))
                     [0..<unat (length' entry)]
      in case enif_make_map_from_arrays keys vals of
           None \<Rightarrow> Atom ''map_conversion_failed''
         | Some result_map \<Rightarrow> result_map)"
  using assms by (simp add: Let_def)

text \<open>
  C6 (amended). A map cell that is not null, with the keys and the values extracted
  from its entries in order. When the extracted keys are pairwise different, the
  result is the keyed value of the entries. When two extracted keys are equal, the
  host's map construction refuses them and the result is the failure marker
  \<open>map_conversion_failed\<close>: no entry wins.
\<close>

theorem map_extraction:
  "\<not> cell_is_null vector (LT_MAP key_type value_type) row_idx \<and>
   duckdb_vector_get_data vector = Some data \<and>
   entry = list_data data row_idx \<and>
   keys = map (\<lambda>i. extract_vector_value X
                       (duckdb_struct_vector_get_child (duckdb_list_vector_get_child vector) 0)
                       key_type (unat (offset entry) + i))
              [0..<unat (length' entry)] \<and>
   vals = map (\<lambda>i. extract_vector_value X
                       (duckdb_struct_vector_get_child (duckdb_list_vector_get_child vector) 1)
                       value_type (unat (offset entry) + i))
              [0..<unat (length' entry)]
   \<longrightarrow> extract_vector_value X vector (LT_MAP key_type value_type) row_idx =
         (if distinct keys then Map (zip keys vals) else Atom ''map_conversion_failed'')"
proof
  assume a: "\<not> cell_is_null vector (LT_MAP key_type value_type) row_idx \<and>
   duckdb_vector_get_data vector = Some data \<and>
   entry = list_data data row_idx \<and>
   keys = map (\<lambda>i. extract_vector_value X
                       (duckdb_struct_vector_get_child (duckdb_list_vector_get_child vector) 0)
                       key_type (unat (offset entry) + i))
              [0..<unat (length' entry)] \<and>
   vals = map (\<lambda>i. extract_vector_value X
                       (duckdb_struct_vector_get_child (duckdb_list_vector_get_child vector) 1)
                       value_type (unat (offset entry) + i))
              [0..<unat (length' entry)]"
  then have "extract_vector_value X vector (LT_MAP key_type value_type) row_idx =
      (case enif_make_map_from_arrays keys vals of
           None \<Rightarrow> Atom ''map_conversion_failed''
         | Some result_map \<Rightarrow> result_map)"
    using extract_vector_map [of vector key_type value_type row_idx data X]
    by (simp add: Let_def)
  then show "extract_vector_value X vector (LT_MAP key_type value_type) row_idx =
         (if distinct keys then Map (zip keys vals) else Atom ''map_conversion_failed'')"
    by (simp add: enif_make_map_from_arrays_def)
qed

lemma upt_2: "[0..<2] = [0, Suc 0]"
  by (simp add: upt_rec)

theorem map_extraction_witness:
  "extract_vector_value example_platform (example_map_vector [''k1'', ''k2''])
     (LT_MAP LT_VARCHAR LT_INTEGER) 0
   = Map [(Binary ''k1'', Integer 1), (Binary ''k2'', Integer 2)]"
  using map_extraction [where vector = "example_map_vector [''k1'', ''k2'']"
      and key_type = LT_VARCHAR and value_type = LT_INTEGER and row_idx = 0
      and data = "example_map_data [''k1'', ''k2'']"
      and entry = "\<lparr>offset = 0, length' = 2\<rparr>"
      and keys = "[Binary ''k1'', Binary ''k2'']" and vals = "[Integer 1, Integer 2]"
      and X = example_platform]
  by (simp add: example_map_vector_def example_map_data_def zero_data_def flat_vector_def
      cell_is_null_def is_complex_type_def upt_2 Let_def)

text \<open>
  The claim as stated fails for a map cell whose two entries have the key \<open>k\<close>: the
  result is the failure marker, not a map in which the last entry wins.
\<close>

theorem map_extraction_counterexample:
  "extract_vector_value example_platform (example_map_vector [''k'', ''k''])
     (LT_MAP LT_VARCHAR LT_INTEGER) 0
   = Atom ''map_conversion_failed''"
  by (simp add: example_map_vector_def example_map_data_def zero_data_def flat_vector_def
      cell_is_null_def is_complex_type_def upt_2 enif_make_map_from_arrays_def Let_def)

section \<open>Decimal extraction\<close>

lemma extract_vector_decimal:
  assumes "\<not> cell_is_null vector (LT_DECIMAL width scale internal_type) row_idx"
    "duckdb_vector_get_data vector = Some data"
  shows "extract_vector_value X vector (LT_DECIMAL width scale internal_type) row_idx =
         extract_decimal X data width scale internal_type row_idx"
  using assms by simp

lemma sint_scast16: "sint (scast (w :: 16 word) :: 64 word) = sint w"
  by (rule sint_up_scast) (simp add: is_up)

lemma sint_scast32: "sint (scast (w :: 32 word) :: 64 word) = sint w"
  by (rule sint_up_scast) (simp add: is_up)

lemma extract_decimal_narrow:
  assumes "internal_type = DUCKDB_TYPE_SMALLINT \<and> raw = sint (int16_data data row_idx) \<or>
           internal_type = DUCKDB_TYPE_INTEGER \<and> raw = sint (int32_data data row_idx) \<or>
           internal_type = DUCKDB_TYPE_BIGINT \<and> raw = sint (int64_data data row_idx)"
  shows "extract_decimal X data width scale internal_type row_idx =
     (if scale = 0 then Integer raw
      else enif_make_double
             (double_div X (int64_to_double X (word_of_int raw)) (decimal_divisor X (unat scale))))"
proof -
  have c16: "word_of_int (sint (int16_data data row_idx)) = (scast (int16_data data row_idx) :: 64 word)"
    by (rule scast_eq [symmetric])
  have c32: "word_of_int (sint (int32_data data row_idx)) = (scast (int32_data data row_idx) :: 64 word)"
    by (rule scast_eq [symmetric])
  have c64: "word_of_int (sint (int64_data data row_idx)) = int64_data data row_idx"
    by simp
  from assms show ?thesis
  proof (elim disjE conjE)
    assume "internal_type = DUCKDB_TYPE_SMALLINT" "raw = sint (int16_data data row_idx)"
    then show ?thesis
      by (simp only: c16 extract_decimal_def format_decimal_def sint_scast16 duckdb_type.case)
  next
    assume "internal_type = DUCKDB_TYPE_INTEGER" "raw = sint (int32_data data row_idx)"
    then show ?thesis
      by (simp only: c32 extract_decimal_def format_decimal_def sint_scast32 duckdb_type.case)
  next
    assume "internal_type = DUCKDB_TYPE_BIGINT" "raw = sint (int64_data data row_idx)"
    then show ?thesis
      by (simp only: c64 extract_decimal_def format_decimal_def duckdb_type.case)
  qed
qed

text \<open>
  C4 (amended). A decimal cell that is not null. With 16-, 32- or 64-bit internal
  storage and \<open>raw\<close> the stored integer: when the scale is 0 the result is the integer
  \<open>raw\<close>; when the scale is not 0 the result is the float term of the double
  \<open>(double) raw / divisor\<close>, where the divisor is 1.0 multiplied by 10.0 as many times as
  the scale says. With 128-bit internal storage, whatever the scale, the result is
  neither: it is the binary of the \<open>%.10g\<close> text of the engine's conversion of the
  decimal to a double.
\<close>

theorem decimal_extraction:
  "(\<not> cell_is_null vector (LT_DECIMAL width scale internal_type) row_idx \<and>
    duckdb_vector_get_data vector = Some data \<and>
    (internal_type = DUCKDB_TYPE_SMALLINT \<and> raw = sint (int16_data data row_idx) \<or>
     internal_type = DUCKDB_TYPE_INTEGER \<and> raw = sint (int32_data data row_idx) \<or>
     internal_type = DUCKDB_TYPE_BIGINT \<and> raw = sint (int64_data data row_idx))
    \<longrightarrow> extract_vector_value X vector (LT_DECIMAL width scale internal_type) row_idx =
          (if scale = 0 then Integer raw
           else enif_make_double
                  (double_div X (int64_to_double X (word_of_int raw))
                     (decimal_divisor X (unat scale))))) \<and>
   (\<not> cell_is_null vector (LT_DECIMAL width scale DUCKDB_TYPE_HUGEINT) row_idx \<and>
    duckdb_vector_get_data vector = Some data
    \<longrightarrow> extract_vector_value X vector (LT_DECIMAL width scale DUCKDB_TYPE_HUGEINT) row_idx =
          Binary (printf_g10 X
                    (duckdb_decimal_to_double X width scale (hugeint_data data row_idx))))"
proof (intro conjI impI)
  assume a: "\<not> cell_is_null vector (LT_DECIMAL width scale internal_type) row_idx \<and>
    duckdb_vector_get_data vector = Some data \<and>
    (internal_type = DUCKDB_TYPE_SMALLINT \<and> raw = sint (int16_data data row_idx) \<or>
     internal_type = DUCKDB_TYPE_INTEGER \<and> raw = sint (int32_data data row_idx) \<or>
     internal_type = DUCKDB_TYPE_BIGINT \<and> raw = sint (int64_data data row_idx))"
  then have "extract_vector_value X vector (LT_DECIMAL width scale internal_type) row_idx =
         extract_decimal X data width scale internal_type row_idx"
    using extract_vector_decimal by blast
  then show "extract_vector_value X vector (LT_DECIMAL width scale internal_type) row_idx =
          (if scale = 0 then Integer raw
           else enif_make_double
                  (double_div X (int64_to_double X (word_of_int raw))
                     (decimal_divisor X (unat scale))))"
    using a extract_decimal_narrow [of internal_type raw data row_idx X width scale] by simp
next
  assume "\<not> cell_is_null vector (LT_DECIMAL width scale DUCKDB_TYPE_HUGEINT) row_idx \<and>
    duckdb_vector_get_data vector = Some data"
  then show "extract_vector_value X vector (LT_DECIMAL width scale DUCKDB_TYPE_HUGEINT) row_idx =
          Binary (printf_g10 X
                    (duckdb_decimal_to_double X width scale (hugeint_data data row_idx)))"
    using extract_vector_decimal [of vector width scale DUCKDB_TYPE_HUGEINT row_idx data X]
    by (simp add: extract_decimal_def)
qed

theorem decimal_extraction_witness:
  "extract_vector_value example_platform (flat_vector (zero_data\<lparr>int16_data := (\<lambda>i. 150)\<rparr>))
     (LT_DECIMAL 4 0 DUCKDB_TYPE_SMALLINT) 0 = Integer 150 \<and>
   extract_vector_value example_platform (flat_vector (zero_data\<lparr>int16_data := (\<lambda>i. 150)\<rparr>))
     (LT_DECIMAL 4 1 DUCKDB_TYPE_SMALLINT) 0 = Double 0x402E000000000000 \<and>
   extract_vector_value example_platform
     (flat_vector (zero_data\<lparr>hugeint_data := (\<lambda>i. \<lparr>lower = 5, upper = 0\<rparr>)\<rparr>))
     (LT_DECIMAL 38 0 DUCKDB_TYPE_HUGEINT) 0 = Binary ''5''"
proof -
  let ?v = "flat_vector (zero_data\<lparr>int16_data := (\<lambda>i. 150)\<rparr>)"
  let ?h = "flat_vector (zero_data\<lparr>hugeint_data := (\<lambda>i. \<lparr>lower = 5, upper = 0\<rparr>)\<rparr>)"
  have a: "extract_vector_value example_platform ?v (LT_DECIMAL 4 0 DUCKDB_TYPE_SMALLINT) 0
           = Integer 150"
    using decimal_extraction [where vector = ?v and width = 4 and scale = 0
        and internal_type = DUCKDB_TYPE_SMALLINT and row_idx = 0 and raw = 150
        and data = "zero_data\<lparr>int16_data := (\<lambda>i. 150)\<rparr>" and X = example_platform]
    by (simp add: flat_vector_not_null flat_vector_data)
  have b: "extract_vector_value example_platform ?v (LT_DECIMAL 4 1 DUCKDB_TYPE_SMALLINT) 0
           = Double 0x402E000000000000"
    using decimal_extraction [where vector = ?v and width = 4 and scale = 1
        and internal_type = DUCKDB_TYPE_SMALLINT and row_idx = 0 and raw = 150
        and data = "zero_data\<lparr>int16_data := (\<lambda>i. 150)\<rparr>" and X = example_platform]
    by (simp add: flat_vector_not_null flat_vector_data example_platform_def double_1_def
        double_10_def enif_make_double_def isnan64_def isinf64_def)
  have c: "extract_vector_value example_platform ?h (LT_DECIMAL 38 0 DUCKDB_TYPE_HUGEINT) 0
           = Binary ''5''"
    using decimal_extraction [where vector = ?h and width = 38 and scale = 0
        and row_idx = 0 and internal_type = DUCKDB_TYPE_SMALLINT and raw = 0
        and data = "zero_data\<lparr>hugeint_data := (\<lambda>i. \<lparr>lower = 5, upper = 0\<rparr>)\<rparr>"
        and X = example_platform]
    by (simp add: flat_vector_not_null flat_vector_data example_platform_def)
  show ?thesis using a b c by simp
qed

text \<open>
  The claim as stated fails for 128-bit storage: the decimal 5 of scale 0 is returned
  as the binary \<open>5\<close>, not as the integer 5.
\<close>

theorem decimal_extraction_counterexample:
  "extract_vector_value example_platform
     (flat_vector (zero_data\<lparr>hugeint_data := (\<lambda>i. \<lparr>lower = 5, upper = 0\<rparr>)\<rparr>))
     (LT_DECIMAL 38 0 DUCKDB_TYPE_HUGEINT) 0 = Binary ''5'' \<and>
   extract_vector_value example_platform
     (flat_vector (zero_data\<lparr>hugeint_data := (\<lambda>i. \<lparr>lower = 5, upper = 0\<rparr>)\<rparr>))
     (LT_DECIMAL 38 0 DUCKDB_TYPE_HUGEINT) 0 \<noteq> Integer 5"
  by (simp add: flat_vector_def cell_is_null_def is_complex_type_def extract_decimal_def
      example_platform_def)

section \<open>Special floating-point values and UUIDs on the vector path\<close>

lemma replicate_numeral_unfold: "replicate (numeral k) x = x # replicate (pred_numeral k) x"
  by (simp add: numeral_eq_Suc)

lemma row_double_special:
  "isnan64 (strtod X str) \<Longrightarrow> row_double X (Some str) = Atom ''nan''"
  "\<not> isnan64 (strtod X str) \<Longrightarrow> isinf64 (strtod X str) \<Longrightarrow> gt_zero64 (strtod X str)
   \<Longrightarrow> row_double X (Some str) = Atom ''infinity''"
  "\<not> isnan64 (strtod X str) \<Longrightarrow> isinf64 (strtod X str) \<Longrightarrow> \<not> gt_zero64 (strtod X str)
   \<Longrightarrow> row_double X (Some str) = Atom ''negative_infinity''"
  by (simp_all add: row_double_def)

lemma row_float_special:
  "isnan32 (strtof X str) \<Longrightarrow> row_float X (Some str) = Atom ''nan''"
  "\<not> isnan32 (strtof X str) \<Longrightarrow> isinf32 (strtof X str) \<Longrightarrow> gt_zero32 (strtof X str)
   \<Longrightarrow> row_float X (Some str) = Atom ''infinity''"
  "\<not> isnan32 (strtof X str) \<Longrightarrow> isinf32 (strtof X str) \<Longrightarrow> \<not> gt_zero32 (strtof X str)
   \<Longrightarrow> row_float X (Some str) = Atom ''negative_infinity''"
  by (simp_all add: row_float_def)

lemma vector_double_not_finite:
  assumes "\<not> cell_is_null vector LT_DOUBLE row_idx" "duckdb_vector_get_data vector = Some data"
    "isnan64 (double_data data row_idx) \<or> isinf64 (double_data data row_idx)"
  shows "extract_vector_value X vector LT_DOUBLE row_idx = Badarg"
  using assms by (auto simp: enif_make_double_def)

text \<open>
  C3. On the row-oriented path a float or double cell whose text parses to a NaN or to
  an infinity yields the atom \<open>nan\<close>, \<open>infinity\<close> or \<open>negative_infinity\<close>. The vector
  path has no such case: it hands the stored double to \<open>enif_make_double\<close>, which for
  a NaN or an infinity returns the \<open>badarg\<close> exception marker. Evaluated for a double
  column holding the quiet NaN, plus infinity and minus infinity, with the row-oriented
  results for the same values beside them:
\<close>

theorem vector_double_special_values:
  "extract_vector_value X (flat_vector (zero_data\<lparr>double_data := (\<lambda>i. 0x7FF8000000000000)\<rparr>))
     LT_DOUBLE 0 = Badarg \<and>
   extract_vector_value X (flat_vector (zero_data\<lparr>double_data := (\<lambda>i. 0x7FF0000000000000)\<rparr>))
     LT_DOUBLE 0 = Badarg \<and>
   extract_vector_value X (flat_vector (zero_data\<lparr>double_data := (\<lambda>i. 0xFFF0000000000000)\<rparr>))
     LT_DOUBLE 0 = Badarg \<and>
   extract_row_value example_platform (text_result [DUCKDB_TYPE_DOUBLE] ''nan'') 0 0 = Atom ''nan'' \<and>
   extract_row_value example_platform (text_result [DUCKDB_TYPE_DOUBLE] ''inf'') 0 0
     = Atom ''infinity'' \<and>
   extract_row_value example_platform (text_result [DUCKDB_TYPE_DOUBLE] ''-inf'') 0 0
     = Atom ''negative_infinity''"
  by (simp add: flat_vector_def cell_is_null_def is_complex_type_def enif_make_double_def
      isnan64_def isinf64_def gt_zero64_def extract_row_value_def text_result_def row_double_def
      example_platform_def)

text \<open>
  C5. The vector path prints the two stored words of a UUID as they are. Evaluated
  for the stored value whose high word has only its top bit set and whose low word is
  zero:
\<close>

theorem vector_uuid_top_bit:
  "extract_vector_value X
     (flat_vector (zero_data\<lparr>hugeint_data := (\<lambda>i. \<lparr>lower = 0, upper = 0x8000000000000000\<rparr>)\<rparr>))
     LT_UUID 0 = Binary ''80000000-0000-0000-0000-000000000000''"
  by (simp add: flat_vector_def cell_is_null_def is_complex_type_def extract_uuid_def
      show_hex_pad_def show_hex.simps hex_char_def digit_char_def replicate_numeral_unfold)

lemma extract_uuid_example:
  "extract_uuid \<lparr>lower = 0xa716446655440000, upper = 0x550e8400e29b41d4\<rparr> =
   Binary ''550e8400-e29b-41d4-a716-446655440000''"
  by (simp add: extract_uuid_def
      show_hex_pad_def show_hex.simps hex_char_def digit_char_def replicate_numeral_unfold)

section \<open>Appending an int8\<close>

lemma get_appender_resource_Some:
  "resources w n = Some (AppenderResource appender)
   \<Longrightarrow> get_appender_resource w (Resource n) = Some (n, appender)"
  by (simp add: get_appender_resource_def)

lemma sint8_of_int:
  assumes "- 128 \<le> v" "v \<le> 127"
  shows "sint (word_of_int v :: 8 word) = v"
proof -
  have "signed_take_bit 7 v = v"
    using assms by (intro signed_take_bit_int_eq_self) simp_all
  then show ?thesis by (simp add: sint_sbintrunc')
qed

lemma append_int8_too_wide:
  assumes "resources w n = Some (AppenderResource appender)" "v < - 2147483648 \<or> 2147483647 < v"
  shows "appender_append_int8_nif E w [Resource n, Integer v] = (Badarg, w)"
  using assms
  by (auto simp: appender_append_int8_nif_def get_appender_resource_Some enif_get_int_def)

lemma append_int8_out_of_range:
  assumes "resources w n = Some (AppenderResource appender)"
    "- 2147483648 \<le> v" "v \<le> 2147483647" "v < - 128 \<or> 127 < v"
  shows "appender_append_int8_nif E w [Resource n, Integer v] =
         (make_error ''Value out of range for int8'', w)"
  using assms
  by (auto simp: appender_append_int8_nif_def get_appender_resource_Some enif_get_int_def)

lemma append_int8_in_range:
  assumes "resources w n = Some (AppenderResource appender)" "- 128 \<le> v" "v \<le> 127"
  shows "appender_append_int8_nif E w [Resource n, Integer v] =
     (let c = Append_int8 appender (word_of_int v);
          w1 = w\<lparr>history := history w @ [c]\<rparr>
      in if status (E (history w) c) = DuckDBError
         then (make_error (case message (E (history w @ [c]) (Appender_error appender)) of
                             Some error_msg \<Rightarrow> error_msg
                           | None \<Rightarrow> ''Unknown appender append error''),
               w\<lparr>history := history w @ [c, Appender_error appender]\<rparr>)
         else (atom_ok, w1))"
  using assms
  by (simp add: appender_append_int8_nif_def get_appender_resource_Some enif_get_int_def
      engine_call_def Let_def)

text \<open>
  C7 (amended). An int8 append on an appender resource, with an integer term \<open>v\<close>.
  When \<open>v\<close> does not fit a 32-bit \<open>int\<close>, the call fails with \<open>badarg\<close>; when it fits
  and is outside \<open>[-128, 127]\<close>, the call fails with the error
  \<open>Value out of range for int8\<close>; in both cases the engine is not called and nothing
  changes. When \<open>v\<close> is within \<open>[-128, 127]\<close>, the one append call made to the engine
  carries the 8-bit value that reads back as \<open>v\<close>; the call returns \<open>ok\<close> when the
  engine accepts it, and otherwise asks the engine for its error and returns that.
\<close>

theorem append_int8_range:
  "resources w n = Some (AppenderResource appender) \<and>
   c = Append_int8 appender (word_of_int v)
   \<longrightarrow> (v < - 2147483648 \<or> 2147483647 < v
         \<longrightarrow> appender_append_int8_nif E w [Resource n, Integer v] = (Badarg, w)) \<and>
       (- 2147483648 \<le> v \<and> v \<le> 2147483647 \<and> (v < - 128 \<or> 127 < v)
         \<longrightarrow> appender_append_int8_nif E w [Resource n, Integer v] =
             (make_error ''Value out of range for int8'', w)) \<and>
       (- 128 \<le> v \<and> v \<le> 127
         \<longrightarrow> sint (word_of_int v :: 8 word) = v \<and>
             (status (E (history w) c) = DuckDBSuccess
               \<longrightarrow> appender_append_int8_nif E w [Resource n, Integer v] =
                   (atom_ok, w\<lparr>history := history w @ [c]\<rparr>)) \<and>
             (status (E (history w) c) = DuckDBError
               \<longrightarrow> appender_append_int8_nif E w [Resource n, Integer v] =
                   (make_error (case message (E (history w @ [c]) (Appender_error appender)) of
                                  Some error_msg \<Rightarrow> error_msg
                                | None \<Rightarrow> ''Unknown appender append error''),
                    w\<lparr>history := history w @ [c, Appender_error appender]\<rparr>)))"
proof (intro impI conjI)
  assume a: "resources w n = Some (AppenderResource appender) \<and>
   c = Append_int8 appender (word_of_int v)"
  {
    assume "v < - 2147483648 \<or> 2147483647 < v"
    then show "appender_append_int8_nif E w [Resource n, Integer v] = (Badarg, w)"
      using a append_int8_too_wide by blast
  }
  {
    assume "- 2147483648 \<le> v \<and> v \<le> 2147483647 \<and> (v < - 128 \<or> 127 < v)"
    then show "appender_append_int8_nif E w [Resource n, Integer v] =
             (make_error ''Value out of range for int8'', w)"
      using a append_int8_out_of_range by blast
  }
  {
    assume r: "- 128 \<le> v \<and> v \<le> 127"
    then show "sint (word_of_int v :: 8 word) = v" using sint8_of_int by blast
    have e: "appender_append_int8_nif E w [Resource n, Integer v] =
       (if status (E (history w) c) = DuckDBError
         then (make_error (case message (E (history w @ [c]) (Appender_error appender)) of
                             Some error_msg \<Rightarrow> error_msg
                           | None \<Rightarrow> ''Unknown appender append error''),
               w\<lparr>history := history w @ [c, Appender_error appender]\<rparr>)
         else (atom_ok, w\<lparr>history := history w @ [c]\<rparr>))"
      using a r append_int8_in_range [of w n appender v E] by (simp add: Let_def)
    {
      assume "status (E (history w) c) = DuckDBSuccess"
      then show "appender_append_int8_nif E w [Resource n, Integer v] =
                   (atom_ok, w\<lparr>history := history w @ [c]\<rparr>)"
        using e by simp
    }
    {
      assume "status (E (history w) c) = DuckDBError"
      then show "appender_append_int8_nif E w [Resource n, Integer v] =
                   (make_error (case message (E (history w @ [c]) (Appender_error appender)) of
                                  Some error_msg \<Rightarrow> error_msg
                                | None \<Rightarrow> ''Unknown appender append error''),
                    w\<lparr>history := history w @ [c, Appender_error appender]\<rparr>)"
        using e by simp
    }
  }
qed

theorem append_int8_range_witness:
  "appender_append_int8_nif example_engine example_world [Resource 0, Integer 200] =
     (make_error ''Value out of range for int8'', example_world) \<and>
   appender_append_int8_nif example_engine example_world [Resource 0, Integer 100] =
     (atom_ok, example_world\<lparr>history := [Append_int8 (Some 1) 100]\<rparr>) \<and>
   sint (100 :: 8 word) = 100"
proof -
  have a: "appender_append_int8_nif example_engine example_world [Resource 0, Integer 200] =
     (make_error ''Value out of range for int8'', example_world)"
    using append_int8_range [where w = example_world and n = 0 and appender = "Some 1"
        and v = 200 and E = example_engine and c = "Append_int8 (Some 1) (word_of_int 200)"]
    by (simp add: example_world_def)
  have b: "appender_append_int8_nif example_engine example_world [Resource 0, Integer 100] =
     (atom_ok, example_world\<lparr>history := [Append_int8 (Some 1) 100]\<rparr>) \<and>
     sint (100 :: 8 word) = 100"
    using append_int8_range [where w = example_world and n = 0 and appender = "Some 1"
        and v = 100 and E = example_engine and c = "Append_int8 (Some 1) (word_of_int 100)"]
    by (simp add: example_world_def example_engine_def)
  show ?thesis using a b by simp
qed

text \<open>
  The claim as stated fails for an integer that does not fit a 32-bit \<open>int\<close>: the call
  fails with \<open>badarg\<close>, not with the range error.
\<close>

theorem append_int8_range_counterexample:
  "appender_append_int8_nif example_engine example_world [Resource 0, Integer 2147483648] =
     (Badarg, example_world) \<and>
   Badarg \<noteq> make_error ''Value out of range for int8''"
  by (simp add: appender_append_int8_nif_def get_appender_resource_def example_world_def
      enif_get_int_def make_error_def)

section \<open>Destroying an appender\<close>

lemma appender_destroy_nif_unfold:
  assumes "resources w n = Some (AppenderResource appender)"
  shows "appender_destroy_nif E w [Resource n] =
     (let a = E (history w) (Appender_destroy appender);
          w1 = w\<lparr>history := history w @ [Appender_destroy appender]\<rparr>
      in if status a = DuckDBError
         then (make_error ''Failed to destroy appender'', set_appender w1 n (out_handle a))
         else (atom_ok, set_appender (set_appender w1 n (out_handle a)) n None))"
  using assms
  by (simp add: appender_destroy_nif_def get_appender_resource_Some engine_call_def Let_def)

lemma appender_destroy_ok:
  assumes "resources w n = Some (AppenderResource appender)"
    "appender_destroy_nif E w [Resource n] = (atom_ok, w1)"
  shows "resources w1 n = Some (AppenderResource None)"
    and "history w1 = history w @ [Appender_destroy appender]"
proof -
  have "w1 = set_appender (set_appender (w\<lparr>history := history w @ [Appender_destroy appender]\<rparr>) n
                (out_handle (E (history w) (Appender_destroy appender)))) n None"
    using assms appender_destroy_nif_unfold [of w n appender E]
    by (auto simp: Let_def atom_ok_def make_error_def split: if_splits)
  then show "resources w1 n = Some (AppenderResource None)"
    and "history w1 = history w @ [Appender_destroy appender]"
    by (simp_all add: set_appender_def)
qed

lemma destructor_null_handle:
  assumes "resources w n = Some (AppenderResource None)"
  shows "appender_resource_destructor E w n = w"
  using assms by (simp add: appender_resource_destructor_def)

lemma appender_close_keeps_resources:
  "resources (snd (appender_close_nif E w argv)) = resources w"
  by (auto simp: appender_close_nif_def engine_call_def Let_def split: option.splits prod.splits)

text \<open>
  C8 (amended). After a destroy call on an appender resource that returned \<open>ok\<close>,
  whatever calls came before it (a close among them): the handle in the resource is
  null and the engine has been called once; the resource destructor then does
  nothing, the engine is not called. A second destroy call does call the engine again,
  with the null handle, and returns what the engine answers for it: \<open>ok\<close> on success,
  the error \<open>Failed to destroy appender\<close> on \<open>DuckDBError\<close>. It never returns
  anything else.
\<close>

theorem appender_destroy_twice:
  "resources w n = Some (AppenderResource appender) \<and>
   appender_destroy_nif E w [Resource n] = (atom_ok, w1)
   \<longrightarrow> resources w1 n = Some (AppenderResource None) \<and>
       history w1 = history w @ [Appender_destroy appender] \<and>
       appender_resource_destructor E w1 n = w1 \<and>
       history (snd (appender_destroy_nif E w1 [Resource n])) =
         history w1 @ [Appender_destroy None] \<and>
       (status (E (history w1) (Appender_destroy None)) = DuckDBSuccess
         \<longrightarrow> fst (appender_destroy_nif E w1 [Resource n]) = atom_ok) \<and>
       (status (E (history w1) (Appender_destroy None)) = DuckDBError
         \<longrightarrow> fst (appender_destroy_nif E w1 [Resource n]) =
             make_error ''Failed to destroy appender'')"
proof
  assume a: "resources w n = Some (AppenderResource appender) \<and>
   appender_destroy_nif E w [Resource n] = (atom_ok, w1)"
  then have r: "resources w1 n = Some (AppenderResource None)"
    and h: "history w1 = history w @ [Appender_destroy appender]"
    using appender_destroy_ok [of w n appender E w1] by simp_all
  have d: "appender_resource_destructor E w1 n = w1"
    using r by (rule destructor_null_handle)
  have s: "appender_destroy_nif E w1 [Resource n] =
     (let a = E (history w1) (Appender_destroy None);
          w2 = w1\<lparr>history := history w1 @ [Appender_destroy None]\<rparr>
      in if status a = DuckDBError
         then (make_error ''Failed to destroy appender'', set_appender w2 n (out_handle a))
         else (atom_ok, set_appender (set_appender w2 n (out_handle a)) n None))"
    using r by (rule appender_destroy_nif_unfold)
  have h2: "history (snd (appender_destroy_nif E w1 [Resource n])) =
         history w1 @ [Appender_destroy None]"
    by (simp add: s Let_def set_appender_def)
  have ok: "status (E (history w1) (Appender_destroy None)) = DuckDBSuccess
         \<longrightarrow> fst (appender_destroy_nif E w1 [Resource n]) = atom_ok"
    by (simp add: s Let_def)
  have err: "status (E (history w1) (Appender_destroy None)) = DuckDBError
         \<longrightarrow> fst (appender_destroy_nif E w1 [Resource n]) =
             make_error ''Failed to destroy appender''"
    by (simp add: s Let_def)
  show "resources w1 n = Some (AppenderResource None) \<and>
       history w1 = history w @ [Appender_destroy appender] \<and>
       appender_resource_destructor E w1 n = w1 \<and>
       history (snd (appender_destroy_nif E w1 [Resource n])) =
         history w1 @ [Appender_destroy None] \<and>
       (status (E (history w1) (Appender_destroy None)) = DuckDBSuccess
         \<longrightarrow> fst (appender_destroy_nif E w1 [Resource n]) = atom_ok) \<and>
       (status (E (history w1) (Appender_destroy None)) = DuckDBError
         \<longrightarrow> fst (appender_destroy_nif E w1 [Resource n]) =
             make_error ''Failed to destroy appender'')"
    using r h d h2 ok err by blast
qed

lemma example_destroy_once:
  "appender_destroy_nif example_engine example_world [Resource 0] =
     (atom_ok, set_appender (example_world\<lparr>history := [Appender_destroy (Some 1)]\<rparr>) 0 None)"
  by (simp add: appender_destroy_nif_def get_appender_resource_def example_world_def
      example_engine_def engine_call_def set_appender_def Let_def)

theorem appender_destroy_twice_witness:
  "appender_resource_destructor example_engine
     (set_appender (example_world\<lparr>history := [Appender_destroy (Some 1)]\<rparr>) 0 None) 0
   = set_appender (example_world\<lparr>history := [Appender_destroy (Some 1)]\<rparr>) 0 None \<and>
   history (snd (appender_destroy_nif example_engine
     (set_appender (example_world\<lparr>history := [Appender_destroy (Some 1)]\<rparr>) 0 None) [Resource 0]))
   = [Appender_destroy (Some 1), Appender_destroy None]"
  using appender_destroy_twice [where w = example_world and n = 0 and appender = "Some 1"
      and E = example_engine
      and ?w1.0 = "set_appender (example_world\<lparr>history := [Appender_destroy (Some 1)]\<rparr>) 0 None"]
    example_destroy_once
  by (simp add: example_world_def)

text \<open>
  The claim as stated fails with an engine that rejects a null handle: the first
  destroy call returns \<open>ok\<close>, the second one signals an error.
\<close>

theorem appender_destroy_twice_counterexample:
  "fst (appender_destroy_nif example_engine example_world [Resource 0]) = atom_ok \<and>
   fst (appender_destroy_nif example_engine
          (snd (appender_destroy_nif example_engine example_world [Resource 0])) [Resource 0])
   = make_error ''Failed to destroy appender''"
  by (simp add: example_destroy_once appender_destroy_nif_def get_appender_resource_def
      example_world_def example_engine_def engine_call_def set_appender_def Let_def)

section \<open>Executing a prepared statement\<close>

lemma bind_call_is_bind: "bind_call stmt i p = Some c \<Longrightarrow> is_bind c"
  by (auto simp: bind_call_def split: if_splits option.splits eterm.splits)

lemma bind_parameter_history:
  assumes "bind_parameter E w stmt i p = (st, w')"
  shows "\<exists>cs. history w' = history w @ cs \<and> list_all is_bind cs"
proof (cases "bind_call stmt i p")
  case None
  then have "w' = w" using assms by (simp add: bind_parameter_def)
  then show ?thesis by simp
next
  case (Some c)
  then have "history w' = history w @ [c]"
    using assms by (auto simp: bind_parameter_def engine_call_def)
  moreover have "is_bind c" using Some by (rule bind_call_is_bind)
  ultimately show ?thesis by simp
qed

lemma bind_parameters_history:
  "bind_parameters E w stmt i params = (res, w')
   \<Longrightarrow> \<exists>cs. history w' = history w @ cs \<and> list_all is_bind cs"
proof (induction params arbitrary: w i)
  case Nil
  then show ?case by simp
next
  case (Cons head tail)
  obtain st w1 where b: "bind_parameter E w stmt (i + 1) head = (st, w1)"
    by (cases "bind_parameter E w stmt (i + 1) head")
  from bind_parameter_history [OF b] obtain cs1
    where c1: "history w1 = history w @ cs1" "list_all is_bind cs1" by blast
  show ?case
  proof (cases "st = DuckDBError")
    case True
    then have "w' = w1" using Cons.prems b by simp
    then show ?thesis using c1 by blast
  next
    case False
    then have "bind_parameters E w1 stmt (i + 1) tail = (res, w')"
      using Cons.prems b by simp
    from Cons.IH [OF this] obtain cs2
      where c2: "history w' = history w1 @ cs2" "list_all is_bind cs2" by blast
    have "history w' = history w @ (cs1 @ cs2)" using c1 c2 by simp
    moreover have "list_all is_bind (cs1 @ cs2)" using c1 c2 by simp
    ultimately show ?thesis by blast
  qed
qed

lemma bind_parameters_all_bound:
  "bind_parameters E w stmt i params = (None, w')
   \<Longrightarrow> \<exists>cs. history w' = history w @ cs \<and> size cs = size params \<and> list_all is_bind cs"
proof (induction params arbitrary: w i)
  case Nil
  then show ?case by simp
next
  case (Cons head tail)
  obtain st w1 where b: "bind_parameter E w stmt (i + 1) head = (st, w1)"
    by (cases "bind_parameter E w stmt (i + 1) head")
  have ok: "st \<noteq> DuckDBError" using Cons.prems b by (auto split: if_splits)
  then obtain c where c: "bind_call stmt (i + 1) head = Some c"
    using b by (cases "bind_call stmt (i + 1) head") (auto simp: bind_parameter_def)
  then have h1: "history w1 = history w @ [c]" "is_bind c"
    using b bind_call_is_bind by (auto simp: bind_parameter_def engine_call_def)
  have "bind_parameters E w1 stmt (i + 1) tail = (None, w')"
    using Cons.prems b ok by simp
  from Cons.IH [OF this] obtain cs
    where c2: "history w' = history w1 @ cs" "size cs = size tail" "list_all is_bind cs"
    by blast
  have "history w' = history w @ (c # cs)" using h1 c2 by simp
  moreover have "size (c # cs) = size (head # tail)" using c2 by simp
  moreover have "list_all is_bind (c # cs)" using h1 c2 by simp
  ultimately show ?case by blast
qed

lemma get_prepared_statement_resource_Some:
  "resources w s = Some (PreparedStatementResource stmt)
   \<Longrightarrow> get_prepared_statement_resource w (Resource s) = Some stmt"
  by (simp add: get_prepared_statement_resource_def)

lemma execute_unfold:
  assumes "resources w s = Some (PreparedStatementResource stmt)"
    "w1 = w\<lparr>history := history w @ [Nparams stmt]\<rparr>"
    "param_count = number (E (history w) (Nparams stmt))"
  shows "prepared_statement_execute_nif E w [Resource s, List params] =
     (if size params \<noteq> param_count
      then (make_error (''Parameter count mismatch: expected '' @
                        show_nat param_count @ '', got '' @ show_nat (size params)), w1)
      else case bind_parameters E w1 stmt 0 params of
             (Some i, w2) \<Rightarrow> (make_error (''Failed to bind parameter '' @ show_nat i), w2)
           | (None, w2) \<Rightarrow>
               (let (x, w3) = engine_call E w2 (Execute_prepared stmt)
                in if status x = DuckDBError
                   then (let (e, w4) = engine_call E w3 (Result_error (out_handle x));
                             (d, w5) = engine_call E w4 (Destroy_result (out_handle x));
                             (d', w6) = engine_call E w5 (Destroy_result (out_handle d))
                         in (make_error
                               (case message e of
                                  Some error_msg \<Rightarrow> error_msg
                                | None \<Rightarrow> ''Failed to execute prepared statement''),
                             w6))
                   else (make_ok (Resource (next_resource w3)),
                         w3\<lparr>resources := (resources w3)
                               (next_resource w3 \<mapsto> ResultResource (out_handle x)),
                             next_resource := Suc (next_resource w3)\<rparr>)))"
  using assms
  by (simp add: prepared_statement_execute_nif_def get_prepared_statement_resource_Some
      engine_call_def Let_def)

lemma execute_history_failed_bind:
  assumes "bind_parameters E w1 stmt 0 params = (Some i, w2)"
    "history w1 = history w @ [Nparams stmt]"
  shows "Execute_prepared stmt \<notin> set (drop (size (history w)) (history w2))"
proof -
  from bind_parameters_history [OF assms(1)] obtain cs
    where c: "history w2 = history w1 @ cs" "list_all is_bind cs" by blast
  have "drop (size (history w)) (history w2) = Nparams stmt # cs"
    using c assms(2) by simp
  moreover have "Execute_prepared stmt \<notin> set cs"
    using c(2) by (auto simp: list_all_iff)
  ultimately show ?thesis by simp
qed

lemma execute_history_bound:
  assumes "bind_parameters E w1 stmt 0 params = (None, w2)"
    "history w1 = history w @ [Nparams stmt]"
    "(let (x, w3) = engine_call E w2 (Execute_prepared stmt)
                in if status x = DuckDBError
                   then (let (e, w4) = engine_call E w3 (Result_error (out_handle x));
                             (d, w5) = engine_call E w4 (Destroy_result (out_handle x));
                             (d', w6) = engine_call E w5 (Destroy_result (out_handle d))
                         in (make_error
                               (case message e of
                                  Some error_msg \<Rightarrow> error_msg
                                | None \<Rightarrow> ''Failed to execute prepared statement''),
                             w6))
                   else (make_ok (Resource (next_resource w3)),
                         w3\<lparr>resources := (resources w3)
                               (next_resource w3 \<mapsto> ResultResource (out_handle x)),
                             next_resource := Suc (next_resource w3)\<rparr>)) = (r, w')"
  shows "Execute_prepared stmt \<in> set (drop (size (history w)) (history w'))"
proof -
  from bind_parameters_history [OF assms(1)] obtain cs
    where c: "history w2 = history w1 @ cs" by blast
  have "\<exists>ds. history w' = history w2 @ Execute_prepared stmt # ds"
    using assms(3) by (auto simp: engine_call_def Let_def split: if_splits)
  then obtain ds where "history w' = history w @ Nparams stmt # cs @ Execute_prepared stmt # ds"
    using c assms(2) by auto
  then show ?thesis by simp
qed

text \<open>
  C10. An execute call on a prepared-statement resource with a list of parameters.
  When the length of the list differs from the parameter count the engine declares,
  the call returns the parameter-count-mismatch error and the only engine call made is
  the one that asked for the count: nothing is bound, nothing is executed. The
  statement is executed (an execute call is among the engine calls the call made) if
  and only if the length equals the declared count and the binding loop ended without
  a failed binding.
\<close>

theorem execute_parameter_count:
  "resources w s = Some (PreparedStatementResource stmt) \<and>
   param_count = number (E (history w) (Nparams stmt)) \<and>
   w1 = w\<lparr>history := history w @ [Nparams stmt]\<rparr> \<and>
   prepared_statement_execute_nif E w [Resource s, List params] = (r, w')
   \<longrightarrow> (size params \<noteq> param_count
         \<longrightarrow> r = make_error (''Parameter count mismatch: expected '' @ show_nat param_count @
                              '', got '' @ show_nat (size params)) \<and>
             w' = w1) \<and>
       (Execute_prepared stmt \<in> set (drop (size (history w)) (history w'))
         \<longleftrightarrow> size params = param_count \<and> fst (bind_parameters E w1 stmt 0 params) = None)"
proof
  assume a: "resources w s = Some (PreparedStatementResource stmt) \<and>
   param_count = number (E (history w) (Nparams stmt)) \<and>
   w1 = w\<lparr>history := history w @ [Nparams stmt]\<rparr> \<and>
   prepared_statement_execute_nif E w [Resource s, List params] = (r, w')"
  then have h1: "history w1 = history w @ [Nparams stmt]" by simp
  note u = execute_unfold [of w s stmt w1 param_count E params]
  show "(size params \<noteq> param_count
         \<longrightarrow> r = make_error (''Parameter count mismatch: expected '' @ show_nat param_count @
                              '', got '' @ show_nat (size params)) \<and>
             w' = w1) \<and>
       (Execute_prepared stmt \<in> set (drop (size (history w)) (history w'))
         \<longleftrightarrow> size params = param_count \<and> fst (bind_parameters E w1 stmt 0 params) = None)"
  proof (cases "size params = param_count")
    case False
    then have "r = make_error (''Parameter count mismatch: expected '' @ show_nat param_count @
                              '', got '' @ show_nat (size params))" "w' = w1"
      using a u by simp_all
    moreover have "Execute_prepared stmt \<notin> set (drop (size (history w)) (history w'))"
      using \<open>w' = w1\<close> h1 by simp
    ultimately show ?thesis using False by simp
  next
    case True
    obtain res w2 where b: "bind_parameters E w1 stmt 0 params = (res, w2)"
      by (cases "bind_parameters E w1 stmt 0 params")
    show ?thesis
    proof (cases res)
      case (Some i)
      then have "w' = w2" using a u True b by simp
      then have "Execute_prepared stmt \<notin> set (drop (size (history w)) (history w'))"
        using execute_history_failed_bind [of E w1 stmt params i w2 w] b Some h1 by simp
      then show ?thesis using True b Some by simp
    next
      case None
      then have "Execute_prepared stmt \<in> set (drop (size (history w)) (history w'))"
        using execute_history_bound [of E w1 stmt params w2 w r w'] a u True b h1 by simp
      then show ?thesis using True b None by simp
    qed
  qed
qed

theorem execute_parameter_count_witness:
  "prepared_statement_execute_nif example_engine example_world [Resource 1, List [Integer 5]] =
     (make_error ''Parameter count mismatch: expected 2, got 1'',
      example_world\<lparr>history := [Nparams (Some 2)]\<rparr>) \<and>
   Execute_prepared (Some 2) \<in> set (history (snd (prepared_statement_execute_nif example_engine
     example_world [Resource 1, List [Integer 5, Binary ''x'']])))"
proof -
  let ?one = "prepared_statement_execute_nif example_engine example_world
                [Resource 1, List [Integer 5]]"
  let ?two = "prepared_statement_execute_nif example_engine example_world
                [Resource 1, List [Integer 5, Binary ''x'']]"
  have n: "show_nat 2 = ''2''" "show_nat (Suc 0) = ''1''"
    by (simp_all add: show_nat.simps digit_char_def)
  have "fst ?one = make_error ''Parameter count mismatch: expected 2, got 1'' \<and>
        snd ?one = example_world\<lparr>history := [Nparams (Some 2)]\<rparr>"
    using execute_parameter_count [where w = example_world and s = 1 and stmt = "Some 2"
        and E = example_engine and param_count = 2 and params = "[Integer 5]"
        and ?w1.0 = "example_world\<lparr>history := [Nparams (Some 2)]\<rparr>"
        and r = "fst ?one" and w' = "snd ?one"]
    by (simp add: example_world_def example_engine_def n)
  then have a: "?one = (make_error ''Parameter count mismatch: expected 2, got 1'',
      example_world\<lparr>history := [Nparams (Some 2)]\<rparr>)"
    by (simp add: prod_eq_iff)
  have b: "Execute_prepared (Some 2) \<in> set (history (snd ?two))"
    using execute_parameter_count [where w = example_world and s = 1 and stmt = "Some 2"
        and E = example_engine and param_count = 2 and params = "[Integer 5, Binary ''x'']"
        and ?w1.0 = "example_world\<lparr>history := [Nparams (Some 2)]\<rparr>"
        and r = "fst ?two" and w' = "snd ?two"]
    by (simp add: example_world_def example_engine_def bind_parameter_def bind_call_def
        enif_get_long_def atom_nil_def engine_call_def LLONG_MIN_def LLONG_MAX_def)
  show ?thesis using a b by simp
qed

end
